theory Spec2Isabelle
  imports Main "HOL-Library.Sublist" "HOL-Library.Word"
begin

section \<open>Python values, exceptions and the built-ins the code relies on\<close>

text \<open>
  The services pass around values decoded from JSON (the classifier's reply, the news
  provider's answer) without checking their shape, so they are modelled untyped: a value
  is \<open>None\<close>, a boolean, an integer, a string, a list or a dictionary with string keys.
  A dictionary is an association list in insertion order with distinct keys. JSON numbers
  with a fractional part are outside the model. A character is a code point below 256.
\<close>

datatype pyval = PNone | PBool bool | PInt int | PStr string
  | PList "pyval list" | PDict "(string \<times> pyval) list"

text \<open>
  Every exception the code can meet is a value. \<open>ExternalFailure\<close> stands for whatever a
  call into a client library raises (network, authentication, quota, bad status).
\<close>

datatype exn = AttributeError | TypeError | KeyError | IndexError | ExternalFailure
  | HTTPException nat string

type_synonym bytes = "8 word list"

text \<open>Truth value of a Python object, as \<open>if x\<close> and \<open>not x\<close> test it.\<close>

fun truthy :: "pyval \<Rightarrow> bool" where
  "truthy PNone = False"
| "truthy (PBool b) = b"
| "truthy (PInt i) = (i \<noteq> 0)"
| "truthy (PStr s) = (s \<noteq> [])"
| "truthy (PList xs) = (xs \<noteq> [])"
| "truthy (PDict d) = (d \<noteq> [])"

text \<open>
  Python's \<open>==\<close>: booleans compare as the integers 0 and 1, lists element by element,
  dictionaries key by key whatever the order.
\<close>

fun py_eq :: "pyval \<Rightarrow> pyval \<Rightarrow> bool"
  and py_eq_list :: "pyval list \<Rightarrow> pyval list \<Rightarrow> bool"
  and py_eq_items :: "(string \<times> pyval) list \<Rightarrow> (string \<times> pyval) list \<Rightarrow> bool" where
  "py_eq PNone PNone = True"
| "py_eq (PBool a) (PBool b) = (a = b)"
| "py_eq (PBool a) (PInt b) = ((if a then 1 else 0) = b)"
| "py_eq (PInt a) (PBool b) = (a = (if b then 1 else 0))"
| "py_eq (PInt a) (PInt b) = (a = b)"
| "py_eq (PStr a) (PStr b) = (a = b)"
| "py_eq (PList xs) (PList ys) = py_eq_list xs ys"
| "py_eq (PDict d) (PDict e) = (length d = length e \<and> py_eq_items d e)"
| "py_eq _ _ = False"
| "py_eq_list [] ys = (ys = [])"
| "py_eq_list (x # xs) [] = False"
| "py_eq_list (x # xs) (y # ys) = (py_eq x y \<and> py_eq_list xs ys)"
| "py_eq_items [] e = True"
| "py_eq_items ((k, v) # d) e =
     ((case map_of e k of None \<Rightarrow> False | Some v' \<Rightarrow> py_eq v v') \<and> py_eq_items d e)"

subsection \<open>Dictionaries\<close>

text \<open>\<open>d.get(k, default)\<close> on a dictionary.\<close>

definition dict_get :: "(string \<times> pyval) list \<Rightarrow> string \<Rightarrow> pyval \<Rightarrow> pyval" where
  "dict_get d k dflt = (case map_of d k of None \<Rightarrow> dflt | Some v \<Rightarrow> v)"

text \<open>\<open>x.get(k, default)\<close> on any value: only a dictionary has the method.\<close>

definition py_get :: "pyval \<Rightarrow> string \<Rightarrow> pyval \<Rightarrow> exn + pyval" where
  "py_get x k dflt = (case x of PDict d \<Rightarrow> Inr (dict_get d k dflt) | _ \<Rightarrow> Inl AttributeError)"

text \<open>\<open>d[k] = v\<close>: an existing key keeps its place, a new key goes last.\<close>

fun dict_set :: "(string \<times> pyval) list \<Rightarrow> string \<Rightarrow> pyval \<Rightarrow> (string \<times> pyval) list" where
  "dict_set [] k v = [(k, v)]"
| "dict_set ((k', v') # d) k v =
     (if k' = k then (k, v) # d else (k', v') # dict_set d k v)"

text \<open>\<open>d.update(other)\<close>: the items of \<open>other\<close> are stored one after the other.\<close>

definition dict_update :: "(string \<times> pyval) list \<Rightarrow> (string \<times> pyval) list \<Rightarrow> (string \<times> pyval) list" where
  "dict_update d other = fold (\<lambda>(k, v) acc. dict_set acc k v) other d"

subsection \<open>Strings\<close>

text \<open>\<open>sub in s\<close> for two strings: \<open>sub\<close> occurs in \<open>s\<close> as a contiguous run.\<close>

fun str_contains :: "string \<Rightarrow> string \<Rightarrow> bool" where
  "str_contains [] sub = (sub = [])"
| "str_contains (c # cs) sub = (prefix sub (c # cs) \<or> str_contains cs sub)"

text \<open>
  \<open>str.lower()\<close> on code points below 256: the letters A to Z and the accented capitals
  0xC0 to 0xDE (the multiplication sign 0xD7 apart) move up by 0x20, which sets bit 5.
\<close>

definition is_upper :: "char \<Rightarrow> bool" where
  "is_upper c = (let n = (of_char c :: nat) in
     (65 \<le> n \<and> n \<le> 90) \<or> (192 \<le> n \<and> n \<le> 222 \<and> n \<noteq> 215))"

fun lower_char :: "char \<Rightarrow> char" where
  "lower_char (Char b0 b1 b2 b3 b4 b5 b6 b7) =
     (if is_upper (Char b0 b1 b2 b3 b4 b5 b6 b7) then Char b0 b1 b2 b3 b4 True b6 b7
      else Char b0 b1 b2 b3 b4 b5 b6 b7)"

definition py_lower :: "string \<Rightarrow> string" where
  "py_lower s = map lower_char s"

text \<open>
  White space as \<open>str.strip()\<close> and \<open>str.split()\<close> see it, on code points below 256:
  tab to carriage return, the separators 0x1C to 0x1F, the space, 0x85 and 0xA0.
\<close>

definition is_space :: "char \<Rightarrow> bool" where
  "is_space c = (let n = (of_char c :: nat) in
     (9 \<le> n \<and> n \<le> 13) \<or> (28 \<le> n \<and> n \<le> 32) \<or> n = 133 \<or> n = 160)"

definition py_strip :: "string \<Rightarrow> string" where
  "py_strip s = rev (dropWhile is_space (rev (dropWhile is_space s)))"

text \<open>
  \<open>s.split()\<close>: the maximal runs of characters that are not white space. The first
  argument is the word being read.
\<close>

fun split_words :: "string \<Rightarrow> string \<Rightarrow> string list" where
  "split_words cur [] = (if cur = [] then [] else [cur])"
| "split_words cur (c # cs) =
     (if is_space c then (if cur = [] then split_words [] cs else cur # split_words [] cs)
      else split_words (cur @ [c]) cs)"

definition py_split :: "string \<Rightarrow> string list" where
  "py_split s = split_words [] s"

text \<open>\<open>sep.join(xs)\<close>.\<close>

fun py_join :: "string \<Rightarrow> string list \<Rightarrow> string" where
  "py_join sep [] = []"
| "py_join sep [x] = x"
| "py_join sep (x # y # ys) = x @ sep @ py_join sep (y # ys)"

text \<open>Decimal digits of a natural number and of an integer, as \<open>str(n)\<close> prints them.\<close>

fun show_nat :: "nat \<Rightarrow> string" where
  "show_nat n = (if n < 10 then [''0123456789'' ! n]
     else show_nat (n div 10) @ [''0123456789'' ! (n mod 10)])"

declare show_nat.simps [simp del]

definition show_int :: "int \<Rightarrow> string" where
  "show_int i = (if i < 0 then CHR ''-'' # show_nat (nat (- i)) else show_nat (nat i))"

text \<open>
  \<open>xs[:n]\<close> for an integer \<open>n\<close>: the first \<open>n\<close> elements, and for a negative \<open>n\<close>
  all but the last \<open>-n\<close>.
\<close>

definition slice_to :: "int \<Rightarrow> 'a list \<Rightarrow> 'a list" where
  "slice_to n xs = (if n < 0 then take (length xs - nat (- n)) xs else take (nat n) xs)"

text \<open>\<open>xs[-n:]\<close> for a positive \<open>n\<close>: the last \<open>n\<close> elements, or all of a shorter list.\<close>

definition last_n :: "nat \<Rightarrow> 'a list \<Rightarrow> 'a list" where
  "last_n n xs = drop (length xs - n) xs"

text \<open>Sequencing of steps that may raise: the first exception ends the computation.\<close>

definition bind_exn :: "exn + 'a \<Rightarrow> ('a \<Rightarrow> exn + 'b) \<Rightarrow> exn + 'b" where
  "bind_exn m f = (case m of Inl e \<Rightarrow> Inl e | Inr x \<Rightarrow> f x)"

section \<open>The collaborators outside the repository\<close>

text \<open>
  One entry of the classifier's history and of a chat request, the dictionary
  \<open>{"role": ..., "content": ...}\<close>.
\<close>

record message =
  role :: string
  content :: string

text \<open>
  The world fixes, for one turn, what every call that leaves the repository answers:
  \<^item> \<open>chat_completion\<close>: the chat endpoint called with a message list, giving the
    content of the first choice (a string, or \<open>None\<close>) or raising;
  \<^item> \<open>json_loads\<close>: \<open>json.loads\<close>, with \<open>None\<close> for a \<open>JSONDecodeError\<close>;
  \<^item> \<open>http_get_json\<close>: \<open>requests.get(url, params)\<close>, the status check and the decoding
    of the body, giving the decoded body or raising;
  \<^item> \<open>deepgram_transcribe\<close>: the speech-to-text call on the audio bytes, raising, or
    answering without results (\<open>None\<close>), or with the transcript of the first alternative;
  \<^item> \<open>deepgram_speak\<close>: the text-to-speech call on a text and a voice model, raising, or
    answering without audio (\<open>None\<close>), or with the audio bytes;
  \<^item> \<open>py_repr\<close>: how Python prints a list or a dictionary;
  \<^item> \<open>news_api_key\<close>: the configured key of the news provider.
\<close>

record world =
  chat_completion :: "message list \<Rightarrow> exn + pyval"
  json_loads :: "string \<Rightarrow> pyval option"
  http_get_json :: "string \<Rightarrow> (string \<times> pyval) list \<Rightarrow> exn + pyval"
  deepgram_transcribe :: "bytes \<Rightarrow> exn + string option"
  deepgram_speak :: "pyval \<Rightarrow> string \<Rightarrow> exn + bytes option"
  py_repr :: "pyval \<Rightarrow> string"
  news_api_key :: pyval

text \<open>A value inside an f-string: a string as it is, anything else as \<open>str\<close> prints it.\<close>

definition py_str :: "world \<Rightarrow> pyval \<Rightarrow> string" where
  "py_str w v = (case v of
       PStr s \<Rightarrow> s
     | PNone \<Rightarrow> ''None''
     | PBool b \<Rightarrow> (if b then ''True'' else ''False'')
     | PInt i \<Rightarrow> show_int i
     | _ \<Rightarrow> py_repr w v)"

text \<open>
  The mutable state of the process: the classifier's history, the handler's session, and
  a record of the message lists sent to the chat endpoint, in the order they were sent.
\<close>

record state =
  conversation_history :: "message list"
  current_session :: "(string \<times> pyval) list"
  upstream_log :: "message list list"

definition NEWS_CATEGORIES :: "string list" where
  "NEWS_CATEGORIES = [''technology'', ''politics'', ''sports'', ''entertainment'',
     ''business'', ''health'', ''science'']"

section \<open>services/speech\_service.py\<close>

text \<open>
  \<open>transcribe_audio\<close>: the transcript, or \<open>None\<close> when the answer has no results or
  when anything raises.
\<close>

definition transcribe_audio_body :: "world \<Rightarrow> bytes \<Rightarrow> exn + string option" where
  "transcribe_audio_body w audio_data = deepgram_transcribe w audio_data"

definition transcribe_audio :: "world \<Rightarrow> bytes \<Rightarrow> exn + string option" where
  "transcribe_audio w audio_data =
     (case transcribe_audio_body w audio_data of Inl e \<Rightarrow> Inr None | Inr t \<Rightarrow> Inr t)"

text \<open>\<open>self.voices.get(voice_type, self.voices["female"])\<close>.\<close>

definition select_voice :: "string \<Rightarrow> string" where
  "select_voice voice_type =
     (case map_of [(''female'', ''aura-asteria-en''), (''male'', ''aura-orion-en'')] voice_type of
        Some v \<Rightarrow> v | None \<Rightarrow> ''aura-asteria-en'')"

text \<open>\<open>text[:50]\<close> in the log line raises on a value that cannot be sliced.\<close>

fun sliceable :: "pyval \<Rightarrow> bool" where
  "sliceable (PStr s) = True"
| "sliceable (PList xs) = True"
| "sliceable _ = False"

definition synthesize_speech_body :: "world \<Rightarrow> pyval \<Rightarrow> string \<Rightarrow> exn + bytes option" where
  "synthesize_speech_body w text voice_type =
     (case deepgram_speak w text (select_voice voice_type) of
        Inl e \<Rightarrow> Inl e
      | Inr None \<Rightarrow> Inr None
      | Inr (Some audio_data) \<Rightarrow>
          if sliceable text then Inr (Some audio_data) else Inl TypeError)"

definition synthesize_speech :: "world \<Rightarrow> pyval \<Rightarrow> string \<Rightarrow> exn + bytes option" where
  "synthesize_speech w text voice_type =
     (case synthesize_speech_body w text voice_type of Inl e \<Rightarrow> Inr None | Inr a \<Rightarrow> Inr a)"

text \<open>
  \<open>SpeechService.format_news_for_speech\<close>. The summary of a description is its first 25
  words, with three dots when 25 words were taken.
\<close>

definition summary_of :: "string \<Rightarrow> string" where
  "summary_of description =
     (let desc_words = take 25 (py_split description);
          summary = py_join '' '' desc_words
      in if length desc_words = 25 then summary @ ''...'' else summary)"

text \<open>One round of the loop: the text added for the article at position \<open>i\<close>.\<close>

definition speech_entry :: "world \<Rightarrow> nat \<Rightarrow> pyval \<Rightarrow> exn + string" where
  "speech_entry w i article =
     bind_exn (py_get article ''title'' (PStr '''')) (\<lambda>title.
     bind_exn (py_get article ''description'' (PStr '''')) (\<lambda>description.
       let headline = ''Headline '' @ show_nat i @ '': '' @ py_str w title @ ''. '' in
       if truthy description \<and> \<not> py_eq description title then
         (case description of
            PStr d \<Rightarrow> Inr (headline @ summary_of d @ '' '' @ ''\<newline>\<newline>'')
          | _ \<Rightarrow> Inl AttributeError)
       else Inr (headline @ ''\<newline>\<newline>'')))"

fun speech_loop :: "world \<Rightarrow> nat \<Rightarrow> pyval list \<Rightarrow> string \<Rightarrow> exn + string" where
  "speech_loop w i [] speech_text = Inr speech_text"
| "speech_loop w i (article # rest) speech_text =
     bind_exn (speech_entry w i article) (\<lambda>entry.
       speech_loop w (Suc i) rest (speech_text @ entry))"

definition format_news_for_speech :: "world \<Rightarrow> pyval list \<Rightarrow> pyval \<Rightarrow> exn + string" where
  "format_news_for_speech w articles category =
     (if articles = [] then
        Inr (''Sorry, I couldn't fetch any news for '' @ py_str w category @ '' at the moment.'')
      else speech_loop w 1 articles
             (''Here are the top '' @ py_str w category @ '' news headlines:\<newline>\<newline>''))"

section \<open>services/ai\_service.py\<close>

definition system_prompt :: string where
  \<open>system_prompt = ''\<newline>You are Akashvani AI, a helpful voice assistant that specializes in delivering news updates. \<newline>Your primary functions are:\<newline>1. Provide top 5 news updates from different categories (technology, politics, sports, entertainment, business, health, science)\<newline>2. Search for specific news topics\<newline>3. Have natural conversations about current events\<newline>\<newline>Analyze the user's request and respond with a JSON object containing:\<newline>{\<newline>    "intent": "news_category" | "news_search" | "general_conversation" | "greeting" | "help",\<newline>    "category": "technology|politics|sports|entertainment|business|health|science" (if intent is news_category),\<newline>    "search_query": "search terms" (if intent is news_search),\<newline>    "response": "Your conversational response",\<newline>    "action": "fetch_news" | "search_news" | "respond_only"\<newline>}\<newline>\<newline>For news requests, be enthusiastic and professional. For greetings, introduce yourself as Akashvani AI.\<newline>''\<close>

text \<open>The loop over the categories of \<open>_parse_fallback_response\<close>, which returns at the first match.\<close>

fun find_category :: "string list \<Rightarrow> string \<Rightarrow> string option" where
  "find_category [] user_text_lower = None"
| "find_category (category # rest) user_text_lower =
     (if str_contains user_text_lower category
         \<or> str_contains user_text_lower (category @ '' news'')
      then Some category else find_category rest user_text_lower)"

text \<open>\<open>_parse_fallback_response\<close>.\<close>

definition parse_fallback_response :: "string \<Rightarrow> string \<Rightarrow> pyval" where
  "parse_fallback_response ai_response user_text =
     (let user_text_lower = py_lower user_text in
      case find_category NEWS_CATEGORIES user_text_lower of
        Some category \<Rightarrow>
          PDict [(''intent'', PStr ''news_category''),
                 (''category'', PStr category),
                 (''response'', PStr (''Let me get the latest '' @ category @ '' news for you.'')),
                 (''action'', PStr ''fetch_news'')]
      | None \<Rightarrow>
          if list_ex (str_contains user_text_lower) [''news'', ''headlines'', ''updates''] then
            PDict [(''intent'', PStr ''news_category''),
                   (''category'', PStr ''general''),
                   (''response'', PStr ''Let me get the latest news updates for you.''),
                   (''action'', PStr ''fetch_news'')]
          else if list_ex (str_contains user_text_lower)
                    [''hello'', ''hi'', ''hey'', ''good morning'', ''good evening''] then
            PDict [(''intent'', PStr ''greeting''),
                   (''response'', PStr ''Hello! I'm Akashvani AI, your voice assistant for news updates. Ask me for news from any category like technology, politics, sports, or entertainment!''),
                   (''action'', PStr ''respond_only'')]
          else
            PDict [(''intent'', PStr ''general_conversation''),
                   (''response'', PStr ai_response),
                   (''action'', PStr ''respond_only'')])"

text \<open>The message list of one request: the system prompt, then the last five entries of the history.\<close>

definition request_messages :: "message list \<Rightarrow> message list" where
  "request_messages history =
     \<lparr>role = ''system'', content = system_prompt\<rparr> # last_n 5 history"

text \<open>
  The body of \<open>process_user_input\<close> inside its \<open>try\<close>. The state it returns is the one
  reached when it returned or raised: the entries appended before an exception stay.
\<close>

definition process_user_input_body :: "world \<Rightarrow> string \<Rightarrow> state \<Rightarrow> (exn + pyval) \<times> state" where
  "process_user_input_body w user_text st =
     (let st1 = st\<lparr>conversation_history :=
                    conversation_history st @ [\<lparr>role = ''user'', content = user_text\<rparr>]\<rparr>;
          messages = request_messages (conversation_history st1);
          st2 = st1\<lparr>upstream_log := upstream_log st1 @ [messages]\<rparr>
      in case chat_completion w messages of
           Inl e \<Rightarrow> (Inl e, st2)
         | Inr (PStr reply) \<Rightarrow>
             let ai_response = py_strip reply;
                 st3 = st2\<lparr>conversation_history :=
                    conversation_history st2 @ [\<lparr>role = ''assistant'', content = ai_response\<rparr>]\<rparr>
             in (case json_loads w ai_response of
                   Some result \<Rightarrow> (Inr result, st3)
                 | None \<Rightarrow> (Inr (parse_fallback_response ai_response user_text), st3))
         | Inr _ \<Rightarrow> (Inl AttributeError, st2))"

definition process_user_input :: "world \<Rightarrow> string \<Rightarrow> state \<Rightarrow> (exn + pyval) \<times> state" where
  "process_user_input w user_text st =
     (case process_user_input_body w user_text st of
        (Inl e, st') \<Rightarrow>
          (Inr (PDict [(''intent'', PStr ''general_conversation''),
                       (''response'', PStr ''I'm sorry, I'm having trouble processing your request right now. Please try again.''),
                       (''action'', PStr ''respond_only'')]), st')
      | (Inr result, st') \<Rightarrow> (Inr result, st'))"


section \<open>services/news\_service.py\<close>

definition base_url :: string where
  "base_url = ''https://newsapi.org/v2''"

text \<open>
  One round of the loop of \<open>get_top_headlines\<close> and of \<open>search_news\<close>: the article as the
  rest of the program sees it, numbered \<open>i\<close>.
\<close>

definition formatted_article :: "nat \<Rightarrow> pyval \<Rightarrow> exn + pyval" where
  "formatted_article i article =
     bind_exn (py_get article ''title'' (PStr '''')) (\<lambda>title.
     bind_exn (py_get article ''description'' (PStr '''')) (\<lambda>description.
     bind_exn (py_get article ''source'' (PDict [])) (\<lambda>source.
     bind_exn (py_get source ''name'' (PStr '''')) (\<lambda>source_name.
     bind_exn (py_get article ''url'' (PStr '''')) (\<lambda>url.
     bind_exn (py_get article ''publishedAt'' (PStr '''')) (\<lambda>publishedAt.
       Inr (PDict [(''number'', PInt (int i)),
                   (''title'', title),
                   (''description'', description),
                   (''source'', source_name),
                   (''url'', url),
                   (''publishedAt'', publishedAt)])))))))"

fun format_articles :: "nat \<Rightarrow> pyval list \<Rightarrow> exn + pyval list" where
  "format_articles i [] = Inr []"
| "format_articles i (article # rest) =
     bind_exn (formatted_article i article) (\<lambda>fa.
     bind_exn (format_articles (Suc i) rest) (\<lambda>fas. Inr (fa # fas)))"

text \<open>
  \<open>articles[:limit]\<close> on whatever the provider put under \<open>"articles"\<close>: a list gives a list,
  a string gives its characters, anything else cannot be sliced.
\<close>

definition slice_articles :: "int \<Rightarrow> pyval \<Rightarrow> exn + pyval list" where
  "slice_articles limit articles =
     (case articles of
        PList xs \<Rightarrow> Inr (slice_to limit xs)
      | PStr s \<Rightarrow> Inr (map (\<lambda>c. PStr [c]) (slice_to limit s))
      | _ \<Rightarrow> Inl TypeError)"

definition get_top_headlines_body :: "world \<Rightarrow> pyval \<Rightarrow> string \<Rightarrow> int \<Rightarrow> exn + pyval list" where
  "get_top_headlines_body w category country limit =
     bind_exn (http_get_json w (base_url @ ''/top-headlines'')
                 [(''apiKey'', news_api_key w), (''category'', category),
                  (''country'', PStr country), (''pageSize'', PInt limit)]) (\<lambda>data.
     bind_exn (py_get data ''articles'' (PList [])) (\<lambda>articles.
     bind_exn (slice_articles limit articles) (\<lambda>sliced.
       format_articles 1 sliced)))"

definition get_top_headlines :: "world \<Rightarrow> pyval \<Rightarrow> string \<Rightarrow> int \<Rightarrow> exn + pyval list" where
  "get_top_headlines w category country limit =
     (case get_top_headlines_body w category country limit of
        Inl e \<Rightarrow> Inr [] | Inr formatted_articles \<Rightarrow> Inr formatted_articles)"

definition search_news_body :: "world \<Rightarrow> pyval \<Rightarrow> int \<Rightarrow> exn + pyval list" where
  "search_news_body w query limit =
     bind_exn (http_get_json w (base_url @ ''/everything'')
                 [(''apiKey'', news_api_key w), (''q'', query),
                  (''sortBy'', PStr ''publishedAt''), (''language'', PStr ''en''),
                  (''pageSize'', PInt limit)]) (\<lambda>data.
     bind_exn (py_get data ''articles'' (PList [])) (\<lambda>articles.
     bind_exn (slice_articles limit articles) (\<lambda>sliced.
       format_articles 1 sliced)))"

definition search_news :: "world \<Rightarrow> pyval \<Rightarrow> int \<Rightarrow> exn + pyval list" where
  "search_news w query limit =
     (case search_news_body w query limit of
        Inl e \<Rightarrow> Inr [] | Inr formatted_articles \<Rightarrow> Inr formatted_articles)"

text \<open>
  \<open>get_all_categories_news\<close>: the loop over the configured categories, each round in its
  own \<open>try\<close>. The country is the default of \<open>get_top_headlines\<close>.
\<close>

fun all_categories_loop ::
  "world \<Rightarrow> int \<Rightarrow> string list \<Rightarrow> (string \<times> pyval) list \<Rightarrow> (string \<times> pyval) list" where
  "all_categories_loop w limit_per_category [] all_news = all_news"
| "all_categories_loop w limit_per_category (category # rest) all_news =
     all_categories_loop w limit_per_category rest
       (case get_top_headlines w (PStr category) ''us'' limit_per_category of
          Inr news \<Rightarrow> dict_set all_news category (PList news)
        | Inl e \<Rightarrow> dict_set all_news category (PList []))"

definition get_all_categories_news :: "world \<Rightarrow> int \<Rightarrow> exn + (string \<times> pyval) list" where
  "get_all_categories_news w limit_per_category =
     Inr (all_categories_loop w limit_per_category NEWS_CATEGORIES [])"

section \<open>services/conversation\_handler.py\<close>

text \<open>\<open>articles[0]\<close> on any value.\<close>

definition py_first :: "pyval \<Rightarrow> exn + pyval" where
  "py_first x = (case x of
       PList xs \<Rightarrow> (case xs of [] \<Rightarrow> Inl IndexError | y # ys \<Rightarrow> Inr y)
     | PStr s \<Rightarrow> (case s of [] \<Rightarrow> Inl IndexError | c # cs \<Rightarrow> Inr (PStr [c]))
     | PDict d \<Rightarrow> Inl KeyError
     | _ \<Rightarrow> Inl TypeError)"

text \<open>The loop of \<open>_format_general_news_update\<close> over the items of the dictionary.\<close>

fun general_news_loop :: "world \<Rightarrow> (string \<times> pyval) list \<Rightarrow> string \<Rightarrow> exn + string" where
  "general_news_loop w [] response = Inr response"
| "general_news_loop w ((category, articles) # rest) response =
     (if truthy articles then
        bind_exn (py_first articles) (\<lambda>first.
        bind_exn (py_get first ''title'' (PStr ''No title available'')) (\<lambda>title.
          general_news_loop w rest
            (response @ ''Top '' @ category @ '' headline: '' @ py_str w title @ ''.\<newline>\<newline>'')))
      else general_news_loop w rest response)"

definition format_general_news_update :: "world \<Rightarrow> (string \<times> pyval) list \<Rightarrow> exn + string" where
  "format_general_news_update w all_news =
     (case general_news_loop w all_news ''Here's your news briefing from Akashvani AI.\<newline>\<newline>'' of
        Inr response \<Rightarrow> Inr (response @ ''Which category would you like me to read in detail?'')
      | Inl e \<Rightarrow> Inr ''Here's a quick news update. I have the latest stories from technology, politics, sports, and entertainment. Which category interests you most?'')"

text \<open>
  \<open>_handle_news_request\<close>. The session is written by the last statement before the
  return, so an exception raised earlier leaves the state as it was.
\<close>

definition handle_news_request :: "world \<Rightarrow> pyval \<Rightarrow> state \<Rightarrow> (exn + pyval) \<times> state" where
  "handle_news_request w ai_response st =
     (case py_get ai_response ''category'' (PStr ''general'') of
        Inl e \<Rightarrow> (Inl e, st)
      | Inr category \<Rightarrow>
          if py_eq category (PStr ''general'') then
            (case get_all_categories_news w 3 of
               Inl e \<Rightarrow> (Inl e, st)
             | Inr all_news \<Rightarrow>
                 (case format_general_news_update w all_news of
                    Inl e \<Rightarrow> (Inl e, st)
                  | Inr response \<Rightarrow>
                      (Inr (PStr response),
                       st\<lparr>current_session := dict_update (current_session st)
                            [(''last_category'', category),
                             (''last_news_data'', PDict all_news),
                             (''last_action'', PStr ''news_fetch'')]\<rparr>)))
          else
            (case get_top_headlines w category ''us'' 5 of
               Inl e \<Rightarrow> (Inl e, st)
             | Inr news_articles \<Rightarrow>
                 (case (if news_articles \<noteq> [] then format_news_for_speech w news_articles category
                        else Inr (''I'm sorry, I couldn't fetch '' @ py_str w category
                                  @ '' news at the moment. Would you like news from another category?'')) of
                    Inl e \<Rightarrow> (Inl e, st)
                  | Inr response \<Rightarrow>
                      (Inr (PStr response),
                       st\<lparr>current_session := dict_update (current_session st)
                            [(''last_category'', category),
                             (''last_news_data'', PList news_articles),
                             (''last_action'', PStr ''news_fetch'')]\<rparr>))))"

text \<open>\<open>_handle_news_search\<close>.\<close>

definition handle_news_search :: "world \<Rightarrow> pyval \<Rightarrow> state \<Rightarrow> (exn + pyval) \<times> state" where
  "handle_news_search w ai_response st =
     (case py_get ai_response ''search_query'' (PStr '''') of
        Inl e \<Rightarrow> (Inl e, st)
      | Inr search_query \<Rightarrow>
          if \<not> truthy search_query then
            (Inr (PStr ''I need a specific topic to search for. What news would you like me to find?''), st)
          else
            (case search_news w search_query 5 of
               Inl e \<Rightarrow> (Inl e, st)
             | Inr search_results \<Rightarrow>
                 (case (if search_results \<noteq> [] then
                          format_news_for_speech w search_results
                            (PStr (''search results for '' @ py_str w search_query))
                        else Inr (''I couldn't find any recent news about '' @ [CHR 0x27]
                                  @ py_str w search_query @ [CHR 0x27]
                                  @ ''. Would you like me to search for something else?'')) of
                    Inl e \<Rightarrow> (Inl e, st)
                  | Inr response \<Rightarrow>
                      (Inr (PStr response),
                       st\<lparr>current_session := dict_update (current_session st)
                            [(''last_search'', search_query),
                             (''last_news_data'', PList search_results),
                             (''last_action'', PStr ''news_search'')]\<rparr>))))"

text \<open>
  \<open>_handle_intent\<close>. The two reads of \<open>ai_response\<close> come before the \<open>try\<close>: on a value
  that is not a dictionary they raise out of the function.
\<close>

definition handle_intent_body :: "world \<Rightarrow> pyval \<Rightarrow> pyval \<Rightarrow> state \<Rightarrow> (exn + pyval) \<times> state" where
  "handle_intent_body w ai_response action st =
     (if py_eq action (PStr ''fetch_news'') then handle_news_request w ai_response st
      else if py_eq action (PStr ''search_news'') then handle_news_search w ai_response st
      else (py_get ai_response ''response'' (PStr ''I'm here to help you with news updates!''), st))"

definition handle_intent :: "world \<Rightarrow> pyval \<Rightarrow> state \<Rightarrow> (exn + pyval) \<times> state" where
  "handle_intent w ai_response st =
     (case py_get ai_response ''intent'' (PStr ''general_conversation'') of
        Inl e \<Rightarrow> (Inl e, st)
      | Inr intent \<Rightarrow>
          (case py_get ai_response ''action'' (PStr ''respond_only'') of
             Inl e \<Rightarrow> (Inl e, st)
           | Inr action \<Rightarrow>
               (case handle_intent_body w ai_response action st of
                  (Inl e, st') \<Rightarrow>
                    (Inr (PStr ''I'm sorry, I encountered an issue while processing your request. Please try again.''), st')
                | (Inr response, st') \<Rightarrow> (Inr response, st'))))"

text \<open>\<open>handle_text_input\<close>: the body of the \<open>try\<close>, then the function with its handler.\<close>

definition handle_text_input_body ::
  "world \<Rightarrow> string \<Rightarrow> string \<Rightarrow> state \<Rightarrow> (exn + pyval \<times> bytes option) \<times> state" where
  "handle_text_input_body w text_input voice_type st =
     (case process_user_input w text_input st of
        (Inl e, st1) \<Rightarrow> (Inl e, st1)
      | (Inr ai_response, st1) \<Rightarrow>
          (case handle_intent w ai_response st1 of
             (Inl e, st2) \<Rightarrow> (Inl e, st2)
           | (Inr final_response, st2) \<Rightarrow>
               (case synthesize_speech w final_response voice_type of
                  Inl e \<Rightarrow> (Inl e, st2)
                | Inr audio_response \<Rightarrow> (Inr (final_response, audio_response), st2))))"

definition handle_text_input ::
  "world \<Rightarrow> string \<Rightarrow> string \<Rightarrow> state \<Rightarrow> (exn + pyval \<times> bytes option) \<times> state" where
  "handle_text_input w text_input voice_type st =
     (case handle_text_input_body w text_input voice_type st of
        (Inl e, st') \<Rightarrow>
          (Inr (PStr ''I'm sorry, I encountered an error processing your request.'', None), st')
      | (Inr r, st') \<Rightarrow> (Inr r, st'))"

text \<open>
  \<open>handle_voice_input\<close>: the branch taken when \<open>not transcript\<close> holds, the body of
  the \<open>try\<close>, then the function with its handler.
\<close>

definition not_understood ::
  "world \<Rightarrow> string \<Rightarrow> state \<Rightarrow> (exn + pyval \<times> bytes option) \<times> state" where
  "not_understood w voice_type st =
     (let error_response = PStr ''I'm sorry, I couldn't understand what you said. Could you please try again?''
      in case synthesize_speech w error_response voice_type of
           Inl e \<Rightarrow> (Inl e, st)
         | Inr audio_response \<Rightarrow> (Inr (error_response, audio_response), st))"

definition handle_voice_input_body ::
  "world \<Rightarrow> bytes \<Rightarrow> string \<Rightarrow> state \<Rightarrow> (exn + pyval \<times> bytes option) \<times> state" where
  "handle_voice_input_body w audio_data voice_type st =
     (case transcribe_audio w audio_data of
        Inl e \<Rightarrow> (Inl e, st)
      | Inr None \<Rightarrow> not_understood w voice_type st
      | Inr (Some transcript) \<Rightarrow>
          if transcript = [] then not_understood w voice_type st
          else
            (case process_user_input w transcript st of
               (Inl e, st1) \<Rightarrow> (Inl e, st1)
             | (Inr ai_response, st1) \<Rightarrow>
                 (case handle_intent w ai_response st1 of
                    (Inl e, st2) \<Rightarrow> (Inl e, st2)
                  | (Inr final_response, st2) \<Rightarrow>
                      (case synthesize_speech w final_response voice_type of
                         Inl e \<Rightarrow> (Inl e, st2)
                       | Inr audio_response \<Rightarrow> (Inr (final_response, audio_response), st2)))))"

definition handle_voice_input ::
  "world \<Rightarrow> bytes \<Rightarrow> string \<Rightarrow> state \<Rightarrow> (exn + pyval \<times> bytes option) \<times> state" where
  "handle_voice_input w audio_data voice_type st =
     (case handle_voice_input_body w audio_data voice_type st of
        (Inl e, st') \<Rightarrow>
          (let error_response = PStr ''I'm experiencing some technical difficulties. Please try again in a moment.''
           in case synthesize_speech w error_response voice_type of
                Inl e' \<Rightarrow> (Inl e', st')
              | Inr audio_response \<Rightarrow> (Inr (error_response, audio_response), st'))
      | (Inr r, st') \<Rightarrow> (Inr r, st'))"

text \<open>\<open>len(x)\<close> and \<open>x[i]\<close> for an index \<open>i\<close> that is not negative, on any value.\<close>

definition py_len :: "pyval \<Rightarrow> exn + int" where
  "py_len x = (case x of
       PList xs \<Rightarrow> Inr (int (length xs))
     | PStr s \<Rightarrow> Inr (int (length s))
     | PDict d \<Rightarrow> Inr (int (length d))
     | _ \<Rightarrow> Inl TypeError)"

definition py_index :: "pyval \<Rightarrow> nat \<Rightarrow> exn + pyval" where
  "py_index x i = (case x of
       PList xs \<Rightarrow> (if i < length xs then Inr (xs ! i) else Inl IndexError)
     | PStr s \<Rightarrow> (if i < length s then Inr (PStr [s ! i]) else Inl IndexError)
     | PDict d \<Rightarrow> Inl KeyError
     | _ \<Rightarrow> Inl TypeError)"

text \<open>\<open>get_detailed_article\<close>, which has no \<open>try\<close> of its own.\<close>

definition get_detailed_article :: "world \<Rightarrow> int \<Rightarrow> state \<Rightarrow> exn + string" where
  "get_detailed_article w article_number st =
     (let last_news_data = dict_get (current_session st) ''last_news_data'' (PList []);
          no_article = Inr ''I don't have that article number. Please ask for a valid article number from the recent news.''
      in if \<not> truthy last_news_data \<or> article_number < 1 then no_article
         else
           bind_exn (py_len last_news_data) (\<lambda>n.
             if article_number > n then no_article
             else
               bind_exn (py_index last_news_data (nat (article_number - 1))) (\<lambda>article.
               bind_exn (py_get article ''title'' (PStr ''No title'')) (\<lambda>title.
               bind_exn (py_get article ''description'' (PStr ''No description available'')) (\<lambda>description.
               bind_exn (py_get article ''source'' (PStr ''Unknown source'')) (\<lambda>source.
                 Inr (''Here's more detail about article '' @ show_int article_number @ '': ''
                      @ py_str w title @ ''. '' @ py_str w description
                      @ '' This story is from '' @ py_str w source @ ''.'')))))))"

text \<open>The state of a process that has just started.\<close>

definition initial_state :: state where
  "initial_state = \<lparr>conversation_history = [],
     current_session = [(''voice_preference'', PStr ''female'')], upstream_log = []\<rparr>"

section \<open>main.py: the registry of audio responses\<close>

record response =
  resp_content :: bytes
  media_type :: string
  headers :: "(string \<times> string) list"

text \<open>
  The registration done by the two input endpoints once the handler has answered:
  \<open>if audio_response: audio_storage[audio_id] = audio_response\<close>, with \<open>audio_id\<close> the
  generated identifier.
\<close>

definition store_audio :: "string \<Rightarrow> bytes option \<Rightarrow> (string \<rightharpoonup> bytes) \<Rightarrow> (string \<rightharpoonup> bytes)" where
  "store_audio audio_id audio_response audio_storage =
     (case audio_response of
        None \<Rightarrow> audio_storage
      | Some audio \<Rightarrow> if audio = [] then audio_storage else audio_storage(audio_id \<mapsto> audio))"

text \<open>
  \<open>serve_audio\<close>: the body of the \<open>try\<close>, then the endpoint with its handler, which catches
  every \<open>Exception\<close>; \<open>HTTPException\<close> is one.
\<close>

definition serve_audio_body :: "string \<Rightarrow> (string \<rightharpoonup> bytes) \<Rightarrow> (exn + response) \<times> (string \<rightharpoonup> bytes)" where
  "serve_audio_body audio_id audio_storage =
     (case audio_storage audio_id of
        Some audio_data \<Rightarrow>
          (Inr \<lparr>resp_content = audio_data, media_type = ''audio/wav'',
                headers = [(''Content-Disposition'', ''inline; filename=response.wav''),
                           (''Cache-Control'', ''no-cache'')]\<rparr>,
           audio_storage(audio_id := None))
      | None \<Rightarrow> (Inl (HTTPException 404 ''Audio not found''), audio_storage))"

definition serve_audio :: "string \<Rightarrow> (string \<rightharpoonup> bytes) \<Rightarrow> (exn + response) \<times> (string \<rightharpoonup> bytes)" where
  "serve_audio audio_id audio_storage =
     (case serve_audio_body audio_id audio_storage of
        (Inl e, storage') \<Rightarrow> (Inl (HTTPException 500 ''Error serving audio''), storage')
      | (Inr r, storage') \<Rightarrow> (Inr r, storage'))"

section \<open>Notions used to state the properties\<close>

text \<open>The entry of one category in the result of \<open>get_all_categories_news\<close>.\<close>

definition category_entry :: "world \<Rightarrow> int \<Rightarrow> string \<Rightarrow> string \<times> pyval" where
  "category_entry w limit c =
     (c, PList (case get_top_headlines w (PStr c) ''us'' limit of Inr news \<Rightarrow> news | Inl e \<Rightarrow> []))"

text \<open>
  The Article the specification describes for the provider's article \<open>d\<close> at position
  \<open>n\<close>: a field the provider left out is the empty string, any other field is the value
  the provider sent.
\<close>

definition or_empty :: "pyval option \<Rightarrow> pyval" where
  "or_empty v = (case v of None \<Rightarrow> PStr '''' | Some x \<Rightarrow> x)"







text \<open>
  An article the formatter can read aloud: a dictionary whose description is absent,
  \<open>null\<close> or a string, as the Article of the data model has it.
\<close>

definition speakable :: "pyval \<Rightarrow> bool" where
  "speakable a =
     (case a of
        PDict d \<Rightarrow> (case map_of d ''description'' of
                      None \<Rightarrow> True | Some PNone \<Rightarrow> True | Some (PStr s) \<Rightarrow> True | Some _ \<Rightarrow> False)
      | _ \<Rightarrow> False)"

text \<open>
  The text the specification describes for the article at position \<open>i\<close>: the headline
  line, then the summary and a space when a description that is not empty differs from the
  title, then a blank line.
\<close>

definition spec_entry :: "world \<Rightarrow> nat \<Rightarrow> pyval \<Rightarrow> string" where
  "spec_entry w i a =
     (case a of
        PDict d \<Rightarrow>
          ''Headline '' @ show_nat i @ '': '' @ py_str w (or_empty (map_of d ''title'')) @ ''. ''
          @ (case map_of d ''description'' of
               Some (PStr s) \<Rightarrow>
                 if s \<noteq> [] \<and> PStr s \<noteq> or_empty (map_of d ''title'')
                 then summary_of s @ '' '' else []
             | _ \<Rightarrow> [])
          @ ''\<newline>\<newline>''
      | _ \<Rightarrow> [])"


section \<open>Worlds and states used to exercise the theorems\<close>

text \<open>
  The chat endpoint answers \<open>reply\<close>, which does not decode as JSON, and every other
  collaborator fails.
\<close>

definition offline_world :: "string \<Rightarrow> world" where
  "offline_world reply =
     \<lparr>chat_completion = (\<lambda>messages. Inr (PStr reply)),
      json_loads = (\<lambda>s. None),
      http_get_json = (\<lambda>url params. Inl ExternalFailure),
      deepgram_transcribe = (\<lambda>audio. Inl ExternalFailure),
      deepgram_speak = (\<lambda>text voice. Inl ExternalFailure),
      py_repr = (\<lambda>v. []),
      news_api_key = PNone\<rparr>"

text \<open>As \<open>offline_world\<close>, but the reply decodes as JSON to \<open>decoded\<close>.\<close>

definition json_world :: "string \<Rightarrow> pyval \<Rightarrow> world" where
  "json_world reply decoded = (offline_world reply)\<lparr>json_loads := (\<lambda>s. Some decoded)\<rparr>"

text \<open>Only the sports fetch fails; every other request is answered with one article.\<close>

definition sports_down_world :: world where
  "sports_down_world = (offline_world '''')\<lparr>http_get_json := (\<lambda>url params.
      if map_of params ''category'' = Some (PStr ''sports'') then Inl ExternalFailure
      else Inr (PDict [(''articles'', PList [PDict [(''title'', PStr ''T'')]])]))\<rparr>"

text \<open>
  The provider answers every request with three articles: one without description and
  source, one whose description is null and whose source has no name, one complete.
\<close>

definition three_articles_world :: world where
  "three_articles_world = (offline_world '''')\<lparr>http_get_json := (\<lambda>url params.
      Inr (PDict [(''status'', PStr ''ok''),
        (''articles'', PList [
           PDict [(''title'', PStr ''A'')],
           PDict [(''title'', PStr ''B''), (''description'', PNone), (''source'', PDict [])],
           PDict [(''source'', PDict [(''id'', PNone), (''name'', PStr ''Wire'')]),
                  (''title'', PStr ''C''), (''description'', PStr ''c c''),
                  (''url'', PStr ''http://c''), (''publishedAt'', PStr ''2024'')]])]))\<rparr>"


text \<open>Every collaborator fails; no value needs \<open>py_repr\<close>.\<close>

definition silent_world :: world where
  "silent_world = offline_world ''''"


text \<open>
  Nothing is transcribed, and speech synthesis answers every text with the same three bytes.
\<close>

definition deaf_world :: world where
  "deaf_world = (offline_world '''')\<lparr>
      deepgram_transcribe := (\<lambda>audio. Inr None),
      deepgram_speak := (\<lambda>text voice. Inr (Some [1, 2, 3]))\<rparr>"


text \<open>
  As \<open>three_articles_world\<close>, but the chat endpoint answers \<open>reply\<close>, which decodes as
  JSON to \<open>decoded\<close>.
\<close>

definition asking_world :: "string \<Rightarrow> pyval \<Rightarrow> world" where
  "asking_world reply decoded = three_articles_world\<lparr>
      chat_completion := (\<lambda>messages. Inr (PStr reply)),
      json_loads := (\<lambda>s. Some decoded)\<rparr>"

text \<open>The three articles of \<open>three_articles_world\<close> as the news service returns them.\<close>

definition three_articles :: "pyval list" where
  "three_articles =
     [PDict [(''number'', PInt 1), (''title'', PStr ''A''), (''description'', PStr ''''),
             (''source'', PStr ''''), (''url'', PStr ''''), (''publishedAt'', PStr '''')],
      PDict [(''number'', PInt 2), (''title'', PStr ''B''), (''description'', PNone),
             (''source'', PStr ''''), (''url'', PStr ''''), (''publishedAt'', PStr '''')],
      PDict [(''number'', PInt 3), (''title'', PStr ''C''), (''description'', PStr ''c c''),
             (''source'', PStr ''Wire''), (''url'', PStr ''http://c''),
             (''publishedAt'', PStr ''2024'')]]"

text \<open>
  The chat endpoint answers with a request for the general briefing, and every other
  collaborator fails.
\<close>

definition briefing_world :: world where
  "briefing_world = json_world ''reply''
     (PDict [(''intent'', PStr ''news_category''), (''category'', PStr ''general''),
             (''response'', PStr ''Here is the news.''), (''action'', PStr ''fetch_news'')])"



section \<open>The fallback classification\<close>

lemma str_contains_sublist: "str_contains s sub = sublist sub s"
  by (induction s) (auto simp: sublist_Cons_right)











section \<open>The classifier's history\<close>


lemma process_user_input_log:
  "upstream_log (snd (process_user_input w user_text st)) =
     upstream_log st @ [request_messages
        (conversation_history st @ [\<lparr>role = ''user'', content = user_text\<rparr>])]"
  by (auto simp: process_user_input_def process_user_input_body_def Let_def
      split: sum.splits pyval.splits option.splits)






section \<open>The news service\<close>

lemma get_top_headlines_total:
  "\<exists>news. get_top_headlines w category country limit = Inr news"
  by (simp add: get_top_headlines_def split: sum.splits)

lemma dict_set_fresh: "k \<notin> fst ` set d \<Longrightarrow> dict_set d k v = d @ [(k, v)]"
  by (induction d) auto

lemma all_categories_loop_append:
  "distinct cs \<Longrightarrow> set cs \<inter> fst ` set acc = {} \<Longrightarrow>
     all_categories_loop w limit cs acc = acc @ map (category_entry w limit) cs"
proof (induction cs arbitrary: acc)
  case Nil
  show ?case by simp
next
  case (Cons c cs)
  let ?acc' = "acc @ [category_entry w limit c]"
  have fresh: "c \<notin> fst ` set acc" using Cons.prems by auto
  have step: "(case get_top_headlines w (PStr c) ''us'' limit of
          Inr news \<Rightarrow> dict_set acc c (PList news)
        | Inl e \<Rightarrow> dict_set acc c (PList [])) = ?acc'"
    by (simp add: dict_set_fresh[OF fresh] category_entry_def split: sum.splits)
  have "set cs \<inter> fst ` set ?acc' = {}"
    using Cons.prems by (auto simp: category_entry_def)
  with Cons.IH[of ?acc'] Cons.prems(1) show ?case
    by (simp add: step)
qed

lemma all_categories_news_eq:
  "get_all_categories_news w limit = Inr (map (category_entry w limit) NEWS_CATEGORIES)"
proof -
  have "distinct NEWS_CATEGORIES" by (simp add: NEWS_CATEGORIES_def)
  then show ?thesis
    using all_categories_loop_append[of NEWS_CATEGORIES "[]" w limit]
    by (simp add: get_all_categories_news_def)
qed

lemma map_of_category_entry:
  "c \<in> set cs \<Longrightarrow> map_of (map (category_entry w limit) cs) c = Some (snd (category_entry w limit c))"
  by (induction cs) (auto simp: category_entry_def)

lemma failed_fetch_empty:
  assumes "http_get_json w (base_url @ ''/top-headlines'')
             [(''apiKey'', news_api_key w), (''category'', category),
              (''country'', PStr country), (''pageSize'', PInt limit)] = Inl e"
  shows "get_top_headlines w category country limit = Inr []"
  using assms by (simp add: get_top_headlines_def get_top_headlines_body_def bind_exn_def)

text \<open>
  C7. \<open>get_all_categories_news\<close> always returns, and what it returns has the seven
  categories as its keys, in their declared order. Each category maps to what
  \<open>get_top_headlines\<close> gives for it, and a category whose fetch fails maps to the empty
  list; the other categories are not affected.
\<close>

theorem all_categories_isolated:
  "\<exists>all_news. get_all_categories_news w limit = Inr all_news
     \<and> map fst all_news = NEWS_CATEGORIES
     \<and> (\<forall>c\<in>set NEWS_CATEGORIES. \<exists>news.
           get_top_headlines w (PStr c) ''us'' limit = Inr news \<and>
           map_of all_news c = Some (PList news))
     \<and> (\<forall>c\<in>set NEWS_CATEGORIES.
           (\<exists>e. http_get_json w (base_url @ ''/top-headlines'')
                   [(''apiKey'', news_api_key w), (''category'', PStr c),
                    (''country'', PStr ''us''), (''pageSize'', PInt limit)] = Inl e) \<longrightarrow>
           map_of all_news c = Some (PList []))"
proof -
  let ?all = "map (category_entry w limit) NEWS_CATEGORIES"
  have keys: "map fst ?all = NEWS_CATEGORIES"
    by (simp add: category_entry_def comp_def)
  have each: "\<exists>news. get_top_headlines w (PStr c) ''us'' limit = Inr news \<and>
      map_of ?all c = Some (PList news)" if c: "c \<in> set NEWS_CATEGORIES" for c
  proof -
    obtain news where n: "get_top_headlines w (PStr c) ''us'' limit = Inr news"
      using get_top_headlines_total by blast
    then show ?thesis
      using map_of_category_entry[OF c, of w limit] by (simp add: category_entry_def)
  qed
  have failed: "map_of ?all c = Some (PList [])"
    if c: "c \<in> set NEWS_CATEGORIES"
      and f: "\<exists>e. http_get_json w (base_url @ ''/top-headlines'')
                   [(''apiKey'', news_api_key w), (''category'', PStr c),
                    (''country'', PStr ''us''), (''pageSize'', PInt limit)] = Inl e" for c
  proof -
    from f have "get_top_headlines w (PStr c) ''us'' limit = Inr []"
      using failed_fetch_empty by blast
    then show ?thesis
      using map_of_category_entry[OF c, of w limit] by (simp add: category_entry_def)
  qed
  show ?thesis
    using all_categories_news_eq[of w limit] keys each failed by blast
qed

theorem all_categories_isolated_witness:
  "\<exists>all_news. get_all_categories_news sports_down_world 3 = Inr all_news
     \<and> map fst all_news = [''technology'', ''politics'', ''sports'', ''entertainment'',
           ''business'', ''health'', ''science'']
     \<and> map_of all_news ''sports'' = Some (PList [])
     \<and> map_of all_news ''health'' = Some (PList [PDict
           [(''number'', PInt 1), (''title'', PStr ''T''), (''description'', PStr ''''),
            (''source'', PStr ''''), (''url'', PStr ''''), (''publishedAt'', PStr '''')]])"
proof -
  from all_categories_isolated[of sports_down_world 3] obtain all_news where
    r: "get_all_categories_news sports_down_world 3 = Inr all_news"
    and k: "map fst all_news = NEWS_CATEGORIES"
    and each: "\<forall>c\<in>set NEWS_CATEGORIES. \<exists>news.
           get_top_headlines sports_down_world (PStr c) ''us'' 3 = Inr news \<and>
           map_of all_news c = Some (PList news)"
    and failed: "\<forall>c\<in>set NEWS_CATEGORIES.
           (\<exists>e. http_get_json sports_down_world (base_url @ ''/top-headlines'')
                   [(''apiKey'', news_api_key sports_down_world), (''category'', PStr c),
                    (''country'', PStr ''us''), (''pageSize'', PInt 3)] = Inl e) \<longrightarrow>
           map_of all_news c = Some (PList [])"
    by blast
  have s: "''sports'' \<in> set NEWS_CATEGORIES" and h: "''health'' \<in> set NEWS_CATEGORIES"
    by (simp_all add: NEWS_CATEGORIES_def)
  have down: "http_get_json sports_down_world (base_url @ ''/top-headlines'')
                   [(''apiKey'', news_api_key sports_down_world), (''category'', PStr ''sports''),
                    (''country'', PStr ''us''), (''pageSize'', PInt 3)] = Inl ExternalFailure"
    by (simp add: sports_down_world_def)
  have up: "get_top_headlines sports_down_world (PStr ''health'') ''us'' 3 = Inr [PDict
           [(''number'', PInt 1), (''title'', PStr ''T''), (''description'', PStr ''''),
            (''source'', PStr ''''), (''url'', PStr ''''), (''publishedAt'', PStr '''')]]"
    by (simp add: sports_down_world_def get_top_headlines_def get_top_headlines_body_def
        bind_exn_def py_get_def dict_get_def slice_articles_def slice_to_def
        formatted_article_def)
  from failed s down have "map_of all_news ''sports'' = Some (PList [])" by blast
  moreover from each h up have "map_of all_news ''health'' = Some (PList [PDict
           [(''number'', PInt 1), (''title'', PStr ''T''), (''description'', PStr ''''),
            (''source'', PStr ''''), (''url'', PStr ''''), (''publishedAt'', PStr '''')]])"
    by fastforce
  ultimately show ?thesis
    using r k by (simp add: NEWS_CATEGORIES_def)
qed













section \<open>The formatter for speech\<close>

lemma py_eq_PStr: "py_eq (PStr s) t = (PStr s = t)"
  by (cases t) auto

lemma speech_entry_speakable:
  "speakable a \<Longrightarrow> speech_entry w i a = Inr (spec_entry w i a)"
  by (auto simp: speakable_def speech_entry_def spec_entry_def bind_exn_def py_get_def
      dict_get_def or_empty_def py_eq_PStr split: pyval.splits option.splits)

lemma speech_loop_closed:
  "list_all speakable articles \<Longrightarrow>
     speech_loop w i articles speech_text =
       Inr (speech_text @ concat (map (\<lambda>(n, a). spec_entry w n a) (enumerate i articles)))"
  by (induction articles arbitrary: i speech_text)
     (auto simp: bind_exn_def speech_entry_speakable)

lemma summary_truncated:
  "25 < length (py_split d) \<Longrightarrow>
     summary_of d = py_join '' '' (take 25 (py_split d)) @ ''...''"
  by (simp add: summary_of_def Let_def)

lemma summary_whole:
  "length (py_split d) < 25 \<Longrightarrow> summary_of d = py_join '' '' (py_split d)"
  by (simp add: summary_of_def Let_def)

text \<open>
  C3, as amended. For no article the formatter returns one apology sentence naming the
  category or label, without header. For one or more articles that can be read aloud it
  returns a header line naming the category or label (the header carries no count), then
  for each article, numbered by its position, the line "Headline n: title. " followed,
  when a description that is not empty differs from the title, by the summary of the
  description and a space, followed by a blank line. The summary of a description of more
  than 25 words is its first 25 words joined by single spaces, with three dots; the summary
  of a description of fewer than 25 words is all its words, without dots.
\<close>

theorem speech_format:
  "format_news_for_speech w [] category =
      Inr (''Sorry, I couldn't fetch any news for '' @ py_str w category @ '' at the moment.'')
   \<and> (articles \<noteq> [] \<and> list_all speakable articles \<longrightarrow>
        format_news_for_speech w articles category =
          Inr (''Here are the top '' @ py_str w category @ '' news headlines:\<newline>\<newline>''
               @ concat (map (\<lambda>(n, a). spec_entry w n a) (enumerate 1 articles))))
   \<and> (25 < length (py_split d) \<longrightarrow>
        summary_of d = py_join '' '' (take 25 (py_split d)) @ ''...'')
   \<and> (length (py_split d) < 25 \<longrightarrow> summary_of d = py_join '' '' (py_split d))"
proof (intro conjI impI)
  show "format_news_for_speech w [] category =
      Inr (''Sorry, I couldn't fetch any news for '' @ py_str w category @ '' at the moment.'')"
    by (simp add: format_news_for_speech_def)
next
  assume a: "articles \<noteq> [] \<and> list_all speakable articles"
  then have "format_news_for_speech w articles category =
      speech_loop w 1 articles
        (''Here are the top '' @ py_str w category @ '' news headlines:\<newline>\<newline>'')"
    by (simp add: format_news_for_speech_def)
  also have "\<dots> = Inr (''Here are the top '' @ py_str w category @ '' news headlines:\<newline>\<newline>''
               @ concat (map (\<lambda>(n, a). spec_entry w n a) (enumerate 1 articles)))"
    using a by (simp add: speech_loop_closed)
  finally show "format_news_for_speech w articles category =
          Inr (''Here are the top '' @ py_str w category @ '' news headlines:\<newline>\<newline>''
               @ concat (map (\<lambda>(n, a). spec_entry w n a) (enumerate 1 articles)))" .
next
  assume "25 < length (py_split d)"
  then show "summary_of d = py_join '' '' (take 25 (py_split d)) @ ''...''"
    by (rule summary_truncated)
next
  assume "length (py_split d) < 25"
  then show "summary_of d = py_join '' '' (py_split d)"
    by (rule summary_whole)
qed

theorem speech_format_witness:
  "format_news_for_speech silent_world
      [PDict [(''number'', PInt 1), (''title'', PStr ''Cup final''),
              (''description'', PStr ''Late goal  decides it''), (''source'', PStr ''Wire''),
              (''url'', PStr ''''), (''publishedAt'', PStr '''')],
       PDict [(''number'', PInt 2), (''title'', PStr ''Transfer''),
              (''description'', PNone), (''source'', PStr ''''),
              (''url'', PStr ''''), (''publishedAt'', PStr '''')]]
      (PStr ''sports'') =
     Inr ''Here are the top sports news headlines:\<newline>\<newline>Headline 1: Cup final. Late goal decides it \<newline>\<newline>Headline 2: Transfer. \<newline>\<newline>''
   \<and> summary_of ''a b c d e f g h i j k l m n o p q r s t u v w x y z'' =
       ''a b c d e f g h i j k l m n o p q r s t u v w x y...''
   \<and> summary_of ''Late goal  decides it'' = ''Late goal decides it''"
proof -
  let ?arts = "[PDict [(''number'', PInt 1), (''title'', PStr ''Cup final''),
              (''description'', PStr ''Late goal  decides it''), (''source'', PStr ''Wire''),
              (''url'', PStr ''''), (''publishedAt'', PStr '''')],
       PDict [(''number'', PInt 2), (''title'', PStr ''Transfer''),
              (''description'', PNone), (''source'', PStr ''''),
              (''url'', PStr ''''), (''publishedAt'', PStr '''')]]"
  have long: "py_split ''a b c d e f g h i j k l m n o p q r s t u v w x y z'' =
      [''a'', ''b'', ''c'', ''d'', ''e'', ''f'', ''g'', ''h'', ''i'', ''j'', ''k'', ''l'', ''m'',
       ''n'', ''o'', ''p'', ''q'', ''r'', ''s'', ''t'', ''u'', ''v'', ''w'', ''x'', ''y'', ''z'']"
    by (simp add: py_split_def is_space_def)
  have short: "py_split ''Late goal  decides it'' = [''Late'', ''goal'', ''decides'', ''it'']"
    by (simp add: py_split_def is_space_def)
  have ne: "?arts \<noteq> [] \<and> list_all speakable ?arts"
    by (simp add: speakable_def)
  have l: "25 < length (py_split ''a b c d e f g h i j k l m n o p q r s t u v w x y z'')"
    by (simp add: long)
  have s: "length (py_split ''Late goal  decides it'') < 25"
    by (simp add: short)
  have entries: "concat (map (\<lambda>(n, a). spec_entry silent_world n a) (enumerate 1 ?arts)) =
      ''Headline 1: Cup final. Late goal decides it \<newline>\<newline>Headline 2: Transfer. \<newline>\<newline>''"
    by (simp add: spec_entry_def or_empty_def py_str_def summary_of_def short show_nat.simps)
  note T1 = speech_format[of silent_world "PStr ''sports''" ?arts
      "''a b c d e f g h i j k l m n o p q r s t u v w x y z''"]
  note T2 = speech_format[of silent_world "PStr ''sports''" ?arts "''Late goal  decides it''"]
  from T1 ne have "format_news_for_speech silent_world ?arts (PStr ''sports'') =
          Inr (''Here are the top '' @ py_str silent_world (PStr ''sports'') @ '' news headlines:\<newline>\<newline>''
               @ concat (map (\<lambda>(n, a). spec_entry silent_world n a) (enumerate 1 ?arts)))"
    by blast
  moreover from T1 l have "summary_of ''a b c d e f g h i j k l m n o p q r s t u v w x y z'' =
      py_join '' '' (take 25 (py_split ''a b c d e f g h i j k l m n o p q r s t u v w x y z'')) @ ''...''"
    by blast
  moreover from T2 s have "summary_of ''Late goal  decides it'' =
      py_join '' '' (py_split ''Late goal  decides it'')"
    by blast
  ultimately show ?thesis
    unfolding entries long short by (simp add: py_str_def)
qed

text \<open>
  The claim as first stated fails on one article whose description has exactly 25 words:
  the header does not give the count of articles, and the three dots follow a description
  of which no word was cut.
\<close>

theorem speech_format_counterexample:
  "format_news_for_speech silent_world
      [PDict [(''number'', PInt 1), (''title'', PStr ''T''),
              (''description'', PStr ''a b c d e f g h i j k l m n o p q r s t u v w x y''),
              (''source'', PStr ''''), (''url'', PStr ''''), (''publishedAt'', PStr '''')]]
      (PStr ''sports'') =
     Inr ''Here are the top sports news headlines:\<newline>\<newline>Headline 1: T. a b c d e f g h i j k l m n o p q r s t u v w x y... \<newline>\<newline>''
   \<and> py_join '' '' (take 25 (py_split ''a b c d e f g h i j k l m n o p q r s t u v w x y'')) =
       ''a b c d e f g h i j k l m n o p q r s t u v w x y''
   \<and> \<not> sublist (show_nat 1) ''Here are the top sports news headlines:''"
proof -
  have words: "py_split ''a b c d e f g h i j k l m n o p q r s t u v w x y'' =
      [''a'', ''b'', ''c'', ''d'', ''e'', ''f'', ''g'', ''h'', ''i'', ''j'', ''k'', ''l'', ''m'',
       ''n'', ''o'', ''p'', ''q'', ''r'', ''s'', ''t'', ''u'', ''v'', ''w'', ''x'', ''y'']"
    by (simp add: py_split_def is_space_def)
  have "format_news_for_speech silent_world
      [PDict [(''number'', PInt 1), (''title'', PStr ''T''),
              (''description'', PStr ''a b c d e f g h i j k l m n o p q r s t u v w x y''),
              (''source'', PStr ''''), (''url'', PStr ''''), (''publishedAt'', PStr '''')]]
      (PStr ''sports'') =
     Inr ''Here are the top sports news headlines:\<newline>\<newline>Headline 1: T. a b c d e f g h i j k l m n o p q r s t u v w x y... \<newline>\<newline>''"
    by (simp add: format_news_for_speech_def speech_entry_def bind_exn_def py_get_def
        dict_get_def py_str_def summary_of_def words show_nat.simps)
  moreover have "\<not> sublist (show_nat 1) ''Here are the top sports news headlines:''"
    by (simp add: show_nat.simps flip: str_contains_sublist)
  ultimately show ?thesis by (simp add: words)
qed


section \<open>The conversation handler\<close>

lemma synthesize_speech_total: "\<exists>audio. synthesize_speech w text voice_type = Inr audio"
  by (simp add: synthesize_speech_def split: sum.splits)

lemma transcribe_audio_total: "\<exists>t. transcribe_audio w audio_data = Inr t"
  by (simp add: transcribe_audio_def split: sum.splits)

lemma process_user_input_total:
  "\<exists>result st'. process_user_input w user_text st = (Inr result, st')"
  by (simp add: process_user_input_def split: prod.splits sum.splits)

lemma synthesize_speech_str:
  "synthesize_speech w (PStr s) voice_type =
     Inr (case deepgram_speak w (PStr s) (select_voice voice_type) of
            Inr (Some audio) \<Rightarrow> Some audio | _ \<Rightarrow> None)"
  by (simp add: synthesize_speech_def synthesize_speech_body_def split: sum.splits option.splits)

lemma not_understood_eq:
  "not_understood w voice_type st =
     (Inr (PStr ''I'm sorry, I couldn't understand what you said. Could you please try again?'',
           case deepgram_speak w
                  (PStr ''I'm sorry, I couldn't understand what you said. Could you please try again?'')
                  (select_voice voice_type) of
             Inr (Some audio) \<Rightarrow> Some audio | _ \<Rightarrow> None), st)"
  by (simp add: not_understood_def synthesize_speech_str Let_def)

text \<open>
  C8. When the transcription gives \<open>None\<close> or the empty transcript, \<open>handle_voice_input\<close>
  returns the fixed clarification text with the outcome of one synthesis attempt for that
  text: the audio when the synthesis gives some, \<open>None\<close> otherwise. The state is the one it
  started from: the classifier was not called, since a call of the classifier always sends a
  request and so lengthens the record of requests.
\<close>

theorem voice_not_understood:
  assumes "transcribe_audio w audio_data = Inr None \<or> transcribe_audio w audio_data = Inr (Some [])"
  shows "handle_voice_input w audio_data voice_type st =
     (Inr (PStr ''I'm sorry, I couldn't understand what you said. Could you please try again?'',
           case deepgram_speak w
                  (PStr ''I'm sorry, I couldn't understand what you said. Could you please try again?'')
                  (select_voice voice_type) of
             Inr (Some audio) \<Rightarrow> Some audio | _ \<Rightarrow> None), st)
   \<and> synthesize_speech w
        (PStr ''I'm sorry, I couldn't understand what you said. Could you please try again?'')
        voice_type =
       Inr (case deepgram_speak w
                  (PStr ''I'm sorry, I couldn't understand what you said. Could you please try again?'')
                  (select_voice voice_type) of
             Inr (Some audio) \<Rightarrow> Some audio | _ \<Rightarrow> None)
   \<and> upstream_log (snd (handle_voice_input w audio_data voice_type st)) = upstream_log st
   \<and> conversation_history (snd (handle_voice_input w audio_data voice_type st))
        = conversation_history st
   \<and> upstream_log (snd (process_user_input w' user_text st)) \<noteq> upstream_log st"
proof -
  have body: "handle_voice_input_body w audio_data voice_type st = not_understood w voice_type st"
    using assms by (auto simp: handle_voice_input_body_def)
  have main: "handle_voice_input w audio_data voice_type st = not_understood w voice_type st"
    by (simp add: handle_voice_input_def body not_understood_eq)
  have log: "upstream_log (snd (process_user_input w' user_text st)) \<noteq> upstream_log st"
    by (simp add: process_user_input_log)
  show ?thesis
    using log by (simp add: main not_understood_eq synthesize_speech_str)
qed

theorem voice_not_understood_witness:
  "handle_voice_input deaf_world [82, 73, 70, 70] ''male'' initial_state =
     (Inr (PStr ''I'm sorry, I couldn't understand what you said. Could you please try again?'',
           Some [1, 2, 3]), initial_state)
   \<and> handle_voice_input silent_world [82, 73, 70, 70] ''male'' initial_state =
     (Inr (PStr ''I'm sorry, I couldn't understand what you said. Could you please try again?'',
           None), initial_state)"
proof -
  have a: "transcribe_audio deaf_world [82, 73, 70, 70] = Inr None
         \<or> transcribe_audio deaf_world [82, 73, 70, 70] = Inr (Some [])"
    by (simp add: transcribe_audio_def transcribe_audio_body_def deaf_world_def)
  have b: "transcribe_audio silent_world [82, 73, 70, 70] = Inr None
         \<or> transcribe_audio silent_world [82, 73, 70, 70] = Inr (Some [])"
    by (simp add: transcribe_audio_def transcribe_audio_body_def silent_world_def
        offline_world_def)
  show ?thesis
    using voice_not_understood[OF a, of "''male''" initial_state]
      voice_not_understood[OF b, of "''male''" initial_state]
    by (simp add: deaf_world_def silent_world_def offline_world_def)
qed












lemma map_of_dict_set: "map_of (dict_set d k v) = (map_of d)(k \<mapsto> v)"
  by (induction d) (auto simp: fun_eq_iff)

lemma map_of_dict_update3:
  "map_of (dict_update d [(a, x), (b, y), (c, z)]) = (map_of d)(a \<mapsto> x, b \<mapsto> y, c \<mapsto> z)"
  by (simp add: dict_update_def map_of_dict_set)

lemma py_eq_PStr_right: "py_eq t (PStr s) = (t = PStr s)"
  by (cases t) auto

lemma format_speakable_returns:
  "list_all speakable articles \<Longrightarrow> \<exists>text. format_news_for_speech w articles category = Inr text"
  by (simp add: format_news_for_speech_def speech_loop_closed)

lemma format_general_returns: "\<exists>text. format_general_news_update w all_news = Inr text"
  by (simp add: format_general_news_update_def split: sum.splits)

lemma news_request_general:
  assumes "dict_get d ''category'' (PStr ''general'') = PStr ''general''"
    and "get_all_categories_news w 3 = Inr all_news"
  shows "\<exists>response. handle_news_request w (PDict d) st =
     (Inr response, st\<lparr>current_session := dict_update (current_session st)
        [(''last_category'', PStr ''general''), (''last_news_data'', PDict all_news),
         (''last_action'', PStr ''news_fetch'')]\<rparr>)"
  using assms format_general_returns[of w all_news]
  by (auto simp: handle_news_request_def py_get_def)

lemma news_request_category:
  assumes "dict_get d ''category'' (PStr ''general'') = category"
    and "category \<noteq> PStr ''general''"
    and "get_top_headlines w category ''us'' 5 = Inr news"
    and "list_all speakable news"
  shows "\<exists>response. handle_news_request w (PDict d) st =
     (Inr response, st\<lparr>current_session := dict_update (current_session st)
        [(''last_category'', category), (''last_news_data'', PList news),
         (''last_action'', PStr ''news_fetch'')]\<rparr>)"
  using assms format_speakable_returns[OF assms(4), of w category]
  by (auto simp: handle_news_request_def py_get_def py_eq_PStr_right)

lemma news_search_query:
  assumes "dict_get d ''search_query'' (PStr '''') = query"
    and "truthy query"
    and "search_news w query 5 = Inr results"
    and "list_all speakable results"
  shows "\<exists>response. handle_news_search w (PDict d) st =
     (Inr response, st\<lparr>current_session := dict_update (current_session st)
        [(''last_search'', query), (''last_news_data'', PList results),
         (''last_action'', PStr ''news_search'')]\<rparr>)"
  using assms format_speakable_returns[OF assms(4), of w "PStr (''search results for '' @ py_str w query)"]
  by (auto simp: handle_news_search_def py_get_def)

lemma news_search_empty:
  assumes "\<not> truthy (dict_get d ''search_query'' (PStr ''''))"
  shows "handle_news_search w (PDict d) st =
     (Inr (PStr ''I need a specific topic to search for. What news would you like me to find?''), st)"
  using assms by (simp add: handle_news_search_def py_get_def)

lemma handle_intent_dict:
  "handle_intent w (PDict d) st =
     (case handle_intent_body w (PDict d) (dict_get d ''action'' (PStr ''respond_only'')) st of
        (Inl e, st') \<Rightarrow>
          (Inr (PStr ''I'm sorry, I encountered an issue while processing your request. Please try again.''), st')
      | (Inr response, st') \<Rightarrow> (Inr response, st'))"
  by (simp add: handle_intent_def py_get_def)

lemma text_input_state:
  "process_user_input w text_input st = (Inr ai_response, st1) \<Longrightarrow>
     snd (handle_text_input w text_input voice_type st) = snd (handle_intent w ai_response st1)"
  using synthesize_speech_total[of w _ voice_type]
  by (auto simp: handle_text_input_def handle_text_input_body_def split: prod.splits sum.splits)

lemma voice_input_state:
  "transcribe_audio w audio_data = Inr (Some transcript) \<Longrightarrow> transcript \<noteq> [] \<Longrightarrow>
   process_user_input w transcript st = (Inr ai_response, st1) \<Longrightarrow>
     snd (handle_voice_input w audio_data voice_type st) = snd (handle_intent w ai_response st1)"
  using synthesize_speech_total[of w _ voice_type]
  by (auto simp: handle_voice_input_def handle_voice_input_body_def Let_def
      split: prod.splits sum.splits)

lemma process_user_input_session:
  "current_session (snd (process_user_input w user_text st)) = current_session st"
  by (auto simp: process_user_input_def process_user_input_body_def Let_def
      split: sum.splits pyval.splits option.splits)

lemma three_articles_headlines:
  "get_top_headlines three_articles_world category ''us'' 5 = Inr three_articles"
  by (simp add: three_articles_world_def get_top_headlines_def get_top_headlines_body_def
      bind_exn_def py_get_def dict_get_def slice_articles_def slice_to_def
      formatted_article_def three_articles_def)

lemma three_articles_search:
  "search_news three_articles_world query 5 = Inr three_articles"
  by (simp add: three_articles_world_def search_news_def search_news_body_def
      bind_exn_def py_get_def dict_get_def slice_articles_def slice_to_def
      formatted_article_def three_articles_def)

lemma three_articles_speakable: "list_all speakable three_articles"
  by (simp add: three_articles_def speakable_def)

lemma silent_all_categories:
  "get_all_categories_news silent_world 3 =
     Inr [(''technology'', PList []), (''politics'', PList []), (''sports'', PList []),
          (''entertainment'', PList []), (''business'', PList []), (''health'', PList []),
          (''science'', PList [])]"
  by (simp add: get_all_categories_news_def NEWS_CATEGORIES_def get_top_headlines_def
      get_top_headlines_body_def bind_exn_def silent_world_def offline_world_def)

lemma asking_classified:
  "process_user_input (asking_world ''reply'' decoded) user_text initial_state =
     (Inr decoded,
      \<lparr>conversation_history =
         [\<lparr>role = ''user'', content = user_text\<rparr>, \<lparr>role = ''assistant'', content = ''reply''\<rparr>],
       current_session = [(''voice_preference'', PStr ''female'')],
       upstream_log = [request_messages [\<lparr>role = ''user'', content = user_text\<rparr>]]\<rparr>)"
  by (simp add: process_user_input_def process_user_input_body_def asking_world_def
      three_articles_world_def offline_world_def py_strip_def is_space_def Let_def
      initial_state_def)

text \<open>
  C6, as amended. For a classifier result that is a dictionary: after the \<open>fetch_news\<close>
  branch the session holds the category, what was fetched (the dictionary of all
  categories for "general", the list of articles otherwise, empty or not) and the action
  \<open>news_fetch\<close>; after the \<open>search_news\<close> branch with a search query that is not empty it
  holds the query, the results and the action \<open>news_search\<close>; every other key of the
  session keeps its value. This holds when the fetched articles can be read aloud, so that
  the formatter does not raise. After the \<open>search_news\<close> branch with an empty query and
  after any other action the state is unchanged. The two public operations change the
  session only through this dispatch.
\<close>

theorem session_update:
  "(dict_get d ''action'' (PStr ''respond_only'') = PStr ''fetch_news''
      \<and> dict_get d ''category'' (PStr ''general'') = PStr ''general''
      \<and> get_all_categories_news w 3 = Inr all_news \<longrightarrow>
      map_of (current_session (snd (handle_intent w (PDict d) st))) =
        (map_of (current_session st))(''last_category'' \<mapsto> PStr ''general'',
           ''last_news_data'' \<mapsto> PDict all_news, ''last_action'' \<mapsto> PStr ''news_fetch''))
   \<and> (dict_get d ''action'' (PStr ''respond_only'') = PStr ''fetch_news''
      \<and> dict_get d ''category'' (PStr ''general'') = category
      \<and> category \<noteq> PStr ''general''
      \<and> get_top_headlines w category ''us'' 5 = Inr news
      \<and> list_all speakable news \<longrightarrow>
      map_of (current_session (snd (handle_intent w (PDict d) st))) =
        (map_of (current_session st))(''last_category'' \<mapsto> category,
           ''last_news_data'' \<mapsto> PList news, ''last_action'' \<mapsto> PStr ''news_fetch''))
   \<and> (dict_get d ''action'' (PStr ''respond_only'') = PStr ''search_news''
      \<and> dict_get d ''search_query'' (PStr '''') = query
      \<and> truthy query
      \<and> search_news w query 5 = Inr results
      \<and> list_all speakable results \<longrightarrow>
      map_of (current_session (snd (handle_intent w (PDict d) st))) =
        (map_of (current_session st))(''last_search'' \<mapsto> query,
           ''last_news_data'' \<mapsto> PList results, ''last_action'' \<mapsto> PStr ''news_search''))
   \<and> (dict_get d ''action'' (PStr ''respond_only'') = PStr ''search_news''
      \<and> \<not> truthy (dict_get d ''search_query'' (PStr '''')) \<longrightarrow>
      snd (handle_intent w (PDict d) st) = st)
   \<and> (dict_get d ''action'' (PStr ''respond_only'') \<noteq> PStr ''fetch_news''
      \<and> dict_get d ''action'' (PStr ''respond_only'') \<noteq> PStr ''search_news'' \<longrightarrow>
      snd (handle_intent w (PDict d) st) = st)
   \<and> (process_user_input w text_input st = (Inr ai_response, st1) \<longrightarrow>
      snd (handle_text_input w text_input voice_type st) = snd (handle_intent w ai_response st1)
      \<and> current_session st1 = current_session st)
   \<and> (transcribe_audio w audio_data = Inr (Some transcript) \<and> transcript \<noteq> []
      \<and> process_user_input w transcript st = (Inr ai_response, st1) \<longrightarrow>
      snd (handle_voice_input w audio_data voice_type st) = snd (handle_intent w ai_response st1)
      \<and> current_session st1 = current_session st)"
proof (intro conjI impI; (elim conjE)?)
  assume "dict_get d ''action'' (PStr ''respond_only'') = PStr ''fetch_news''"
    "dict_get d ''category'' (PStr ''general'') = PStr ''general''"
    "get_all_categories_news w 3 = Inr all_news"
  then show "map_of (current_session (snd (handle_intent w (PDict d) st))) =
        (map_of (current_session st))(''last_category'' \<mapsto> PStr ''general'',
           ''last_news_data'' \<mapsto> PDict all_news, ''last_action'' \<mapsto> PStr ''news_fetch'')"
    using news_request_general[of d w all_news st]
    by (auto simp: handle_intent_dict handle_intent_body_def map_of_dict_update3)
next
  assume "dict_get d ''action'' (PStr ''respond_only'') = PStr ''fetch_news''"
    "dict_get d ''category'' (PStr ''general'') = category" "category \<noteq> PStr ''general''"
    "get_top_headlines w category ''us'' 5 = Inr news" "list_all speakable news"
  then show "map_of (current_session (snd (handle_intent w (PDict d) st))) =
        (map_of (current_session st))(''last_category'' \<mapsto> category,
           ''last_news_data'' \<mapsto> PList news, ''last_action'' \<mapsto> PStr ''news_fetch'')"
    using news_request_category[of d category w news st]
    by (auto simp: handle_intent_dict handle_intent_body_def map_of_dict_update3)
next
  assume "dict_get d ''action'' (PStr ''respond_only'') = PStr ''search_news''"
    "dict_get d ''search_query'' (PStr '''') = query" "truthy query"
    "search_news w query 5 = Inr results" "list_all speakable results"
  then show "map_of (current_session (snd (handle_intent w (PDict d) st))) =
        (map_of (current_session st))(''last_search'' \<mapsto> query,
           ''last_news_data'' \<mapsto> PList results, ''last_action'' \<mapsto> PStr ''news_search'')"
    using news_search_query[of d query w results st]
    by (auto simp: handle_intent_dict handle_intent_body_def map_of_dict_update3)
next
  assume "dict_get d ''action'' (PStr ''respond_only'') = PStr ''search_news''"
    "\<not> truthy (dict_get d ''search_query'' (PStr ''''))"
  then show "snd (handle_intent w (PDict d) st) = st"
    by (simp add: handle_intent_dict handle_intent_body_def news_search_empty)
next
  assume "dict_get d ''action'' (PStr ''respond_only'') \<noteq> PStr ''fetch_news''"
    "dict_get d ''action'' (PStr ''respond_only'') \<noteq> PStr ''search_news''"
  then show "snd (handle_intent w (PDict d) st) = st"
    by (simp add: handle_intent_dict handle_intent_body_def py_eq_PStr_right py_get_def)
next
  assume p: "process_user_input w text_input st = (Inr ai_response, st1)"
  then show "snd (handle_text_input w text_input voice_type st) = snd (handle_intent w ai_response st1)"
    by (rule text_input_state)
  from p show "current_session st1 = current_session st"
    using process_user_input_session[of w text_input st] by simp
next
  assume t: "transcribe_audio w audio_data = Inr (Some transcript)" "transcript \<noteq> []"
    and p: "process_user_input w transcript st = (Inr ai_response, st1)"
  then show "snd (handle_voice_input w audio_data voice_type st) = snd (handle_intent w ai_response st1)"
    by (rule voice_input_state)
  from p show "current_session st1 = current_session st"
    using process_user_input_session[of w transcript st] by simp
qed

theorem session_update_witness:
  "map_of (current_session (snd (handle_intent silent_world
       (PDict [(''intent'', PStr ''news_category''), (''category'', PStr ''general''),
               (''action'', PStr ''fetch_news'')]) initial_state))) =
     [''voice_preference'' \<mapsto> PStr ''female'', ''last_category'' \<mapsto> PStr ''general'',
      ''last_news_data'' \<mapsto> PDict
         [(''technology'', PList []), (''politics'', PList []), (''sports'', PList []),
          (''entertainment'', PList []), (''business'', PList []), (''health'', PList []),
          (''science'', PList [])],
      ''last_action'' \<mapsto> PStr ''news_fetch'']
   \<and> map_of (current_session (snd (handle_intent three_articles_world
       (PDict [(''intent'', PStr ''news_category''), (''category'', PStr ''sports''),
               (''action'', PStr ''fetch_news'')]) initial_state))) =
     [''voice_preference'' \<mapsto> PStr ''female'', ''last_category'' \<mapsto> PStr ''sports'',
      ''last_news_data'' \<mapsto> PList three_articles, ''last_action'' \<mapsto> PStr ''news_fetch'']
   \<and> map_of (current_session (snd (handle_intent three_articles_world
       (PDict [(''intent'', PStr ''news_search''), (''search_query'', PStr ''cricket''),
               (''action'', PStr ''search_news'')]) initial_state))) =
     [''voice_preference'' \<mapsto> PStr ''female'', ''last_search'' \<mapsto> PStr ''cricket'',
      ''last_news_data'' \<mapsto> PList three_articles, ''last_action'' \<mapsto> PStr ''news_search'']
   \<and> snd (handle_intent three_articles_world
       (PDict [(''intent'', PStr ''news_search''), (''action'', PStr ''search_news'')])
       initial_state) = initial_state
   \<and> snd (handle_intent three_articles_world
       (PDict [(''intent'', PStr ''greeting''), (''response'', PStr ''Hello!''),
               (''action'', PStr ''respond_only'')]) initial_state) = initial_state
   \<and> map_of (current_session (snd (handle_text_input
       (asking_world ''reply'' (PDict [(''intent'', PStr ''news_category''),
          (''category'', PStr ''sports''), (''action'', PStr ''fetch_news'')]))
       ''sports please'' ''female'' initial_state))) ''last_news_data'' = Some (PList three_articles)"
proof -
  let ?general = "[(''intent'', PStr ''news_category''), (''category'', PStr ''general''),
               (''action'', PStr ''fetch_news'')]"
  let ?sports = "[(''intent'', PStr ''news_category''), (''category'', PStr ''sports''),
               (''action'', PStr ''fetch_news'')]"
  let ?search = "[(''intent'', PStr ''news_search''), (''search_query'', PStr ''cricket''),
               (''action'', PStr ''search_news'')]"
  let ?empty = "[(''intent'', PStr ''news_search''), (''action'', PStr ''search_news'')]"
  let ?greet = "[(''intent'', PStr ''greeting''), (''response'', PStr ''Hello!''),
               (''action'', PStr ''respond_only'')]"
  let ?W = "asking_world ''reply'' (PDict ?sports)"
  have init: "map_of (current_session initial_state) = [''voice_preference'' \<mapsto> PStr ''female'']"
    by (simp add: initial_state_def)
  have h1: "dict_get ?general ''action'' (PStr ''respond_only'') = PStr ''fetch_news''
      \<and> dict_get ?general ''category'' (PStr ''general'') = PStr ''general''
      \<and> get_all_categories_news silent_world 3 = Inr
         [(''technology'', PList []), (''politics'', PList []), (''sports'', PList []),
          (''entertainment'', PList []), (''business'', PList []), (''health'', PList []),
          (''science'', PList [])]"
    by (simp add: dict_get_def silent_all_categories)
  have h2: "dict_get ?sports ''action'' (PStr ''respond_only'') = PStr ''fetch_news''
      \<and> dict_get ?sports ''category'' (PStr ''general'') = PStr ''sports''
      \<and> PStr ''sports'' \<noteq> PStr ''general''
      \<and> get_top_headlines three_articles_world (PStr ''sports'') ''us'' 5 = Inr three_articles
      \<and> list_all speakable three_articles"
    by (simp add: dict_get_def three_articles_headlines three_articles_speakable)
  have h3: "dict_get ?search ''action'' (PStr ''respond_only'') = PStr ''search_news''
      \<and> dict_get ?search ''search_query'' (PStr '''') = PStr ''cricket''
      \<and> truthy (PStr ''cricket'')
      \<and> search_news three_articles_world (PStr ''cricket'') 5 = Inr three_articles
      \<and> list_all speakable three_articles"
    by (simp add: dict_get_def three_articles_search three_articles_speakable)
  have h4: "dict_get ?empty ''action'' (PStr ''respond_only'') = PStr ''search_news''
      \<and> \<not> truthy (dict_get ?empty ''search_query'' (PStr ''''))"
    by (simp add: dict_get_def)
  have h5: "dict_get ?greet ''action'' (PStr ''respond_only'') \<noteq> PStr ''fetch_news''
      \<and> dict_get ?greet ''action'' (PStr ''respond_only'') \<noteq> PStr ''search_news''"
    by (simp add: dict_get_def)
  have h6: "process_user_input ?W ''sports please'' initial_state =
     (Inr (PDict ?sports),
      \<lparr>conversation_history =
         [\<lparr>role = ''user'', content = ''sports please''\<rparr>, \<lparr>role = ''assistant'', content = ''reply''\<rparr>],
       current_session = [(''voice_preference'', PStr ''female'')],
       upstream_log = [request_messages [\<lparr>role = ''user'', content = ''sports please''\<rparr>]]\<rparr>)"
    by (rule asking_classified)
  have w2: "get_top_headlines ?W (PStr ''sports'') ''us'' 5 = Inr three_articles"
    by (simp add: asking_world_def three_articles_world_def get_top_headlines_def
      get_top_headlines_body_def bind_exn_def py_get_def dict_get_def slice_articles_def
      slice_to_def formatted_article_def three_articles_def)
  have h7: "dict_get ?sports ''action'' (PStr ''respond_only'') = PStr ''fetch_news''
      \<and> dict_get ?sports ''category'' (PStr ''general'') = PStr ''sports''
      \<and> PStr ''sports'' \<noteq> PStr ''general''
      \<and> get_top_headlines ?W (PStr ''sports'') ''us'' 5 = Inr three_articles
      \<and> list_all speakable three_articles"
    by (simp add: dict_get_def w2 three_articles_speakable)
  have c1: "map_of (current_session (snd (handle_intent silent_world (PDict ?general) initial_state))) =
      (map_of (current_session initial_state))(''last_category'' \<mapsto> PStr ''general'',
        ''last_news_data'' \<mapsto> PDict
         [(''technology'', PList []), (''politics'', PList []), (''sports'', PList []),
          (''entertainment'', PList []), (''business'', PList []), (''health'', PList []),
          (''science'', PList [])], ''last_action'' \<mapsto> PStr ''news_fetch'')"
    using session_update[of ?general silent_world _ initial_state] h1 by blast
  have c2: "map_of (current_session (snd (handle_intent three_articles_world (PDict ?sports) initial_state))) =
      (map_of (current_session initial_state))(''last_category'' \<mapsto> PStr ''sports'',
        ''last_news_data'' \<mapsto> PList three_articles, ''last_action'' \<mapsto> PStr ''news_fetch'')"
    using session_update[of ?sports three_articles_world _ initial_state "PStr ''sports''" three_articles]
      h2 by blast
  have c3: "map_of (current_session (snd (handle_intent three_articles_world (PDict ?search) initial_state))) =
      (map_of (current_session initial_state))(''last_search'' \<mapsto> PStr ''cricket'',
        ''last_news_data'' \<mapsto> PList three_articles, ''last_action'' \<mapsto> PStr ''news_search'')"
    using session_update[of ?search three_articles_world _ initial_state _ _ "PStr ''cricket''"
        three_articles] h3 by blast
  have c4: "snd (handle_intent three_articles_world (PDict ?empty) initial_state) = initial_state"
    using session_update[of ?empty three_articles_world _ initial_state] h4 by blast
  have c5: "snd (handle_intent three_articles_world (PDict ?greet) initial_state) = initial_state"
    using session_update[of ?greet three_articles_world _ initial_state] h5 by blast
  let ?st1 = "\<lparr>conversation_history =
         [\<lparr>role = ''user'', content = ''sports please''\<rparr>, \<lparr>role = ''assistant'', content = ''reply''\<rparr>],
       current_session = [(''voice_preference'', PStr ''female'')],
       upstream_log = [request_messages [\<lparr>role = ''user'', content = ''sports please''\<rparr>]]\<rparr>"
  have c6: "snd (handle_text_input ?W ''sports please'' ''female'' initial_state)
      = snd (handle_intent ?W (PDict ?sports) ?st1)"
    using session_update[where w = ?W and st = initial_state and text_input = "''sports please''"
        and ai_response = "PDict ?sports" and ?st1.0 = ?st1 and voice_type = "''female''"] h6
    by blast
  have c7: "map_of (current_session (snd (handle_intent ?W (PDict ?sports) ?st1))) =
      (map_of (current_session ?st1))(''last_category'' \<mapsto> PStr ''sports'',
        ''last_news_data'' \<mapsto> PList three_articles, ''last_action'' \<mapsto> PStr ''news_fetch'')"
    using session_update[of ?sports ?W _ ?st1 "PStr ''sports''" three_articles] h7 by blast
  show ?thesis
    unfolding c1 c2 c3 c4 c5 c6 c7 init by simp
qed

text \<open>
  The claim as first stated fails on a \<open>search_news\<close> turn whose search query is empty:
  the handler asks for a topic and returns before the session is written.
\<close>

theorem session_update_counterexample:
  "fst (handle_text_input
       (asking_world ''reply'' (PDict [(''intent'', PStr ''news_search''),
          (''search_query'', PStr ''''), (''action'', PStr ''search_news'')]))
       ''search the news'' ''female'' initial_state) =
     Inr (PStr ''I need a specific topic to search for. What news would you like me to find?'', None)
   \<and> current_session (snd (handle_text_input
       (asking_world ''reply'' (PDict [(''intent'', PStr ''news_search''),
          (''search_query'', PStr ''''), (''action'', PStr ''search_news'')]))
       ''search the news'' ''female'' initial_state)) = [(''voice_preference'', PStr ''female'')]
   \<and> map_of (current_session (snd (handle_text_input
       (asking_world ''reply'' (PDict [(''intent'', PStr ''news_search''),
          (''search_query'', PStr ''''), (''action'', PStr ''search_news'')]))
       ''search the news'' ''female'' initial_state))) ''last_action'' = None"
proof -
  let ?W = "asking_world ''reply'' (PDict [(''intent'', PStr ''news_search''),
          (''search_query'', PStr ''''), (''action'', PStr ''search_news'')])"
  have s: "synthesize_speech ?W t ''female'' = Inr None" for t
    by (simp add: synthesize_speech_def synthesize_speech_body_def asking_world_def
        three_articles_world_def offline_world_def)
  have "handle_text_input ?W ''search the news'' ''female'' initial_state =
     (Inr (PStr ''I need a specific topic to search for. What news would you like me to find?'', None),
      \<lparr>conversation_history =
         [\<lparr>role = ''user'', content = ''search the news''\<rparr>, \<lparr>role = ''assistant'', content = ''reply''\<rparr>],
       current_session = [(''voice_preference'', PStr ''female'')],
       upstream_log = [request_messages [\<lparr>role = ''user'', content = ''search the news''\<rparr>]]\<rparr>)"
    by (simp add: handle_text_input_def handle_text_input_body_def asking_classified
        handle_intent_def handle_intent_body_def handle_news_search_def py_get_def dict_get_def s)
  then show ?thesis by simp
qed


lemma detailed_article_no_data:
  "\<not> truthy (dict_get (current_session st) ''last_news_data'' (PList [])) \<or> n < 1 \<Longrightarrow>
     get_detailed_article w n st =
       Inr ''I don't have that article number. Please ask for a valid article number from the recent news.''"
  by (auto simp: get_detailed_article_def Let_def)

lemma detailed_article_on_list:
  assumes "dict_get (current_session st) ''last_news_data'' (PList []) = PList articles"
  shows "(n < 1 \<or> int (length articles) < n \<longrightarrow>
            get_detailed_article w n st =
              Inr ''I don't have that article number. Please ask for a valid article number from the recent news.'')
       \<and> (1 \<le> n \<and> n \<le> int (length articles) \<and> articles ! nat (n - 1) = PDict d \<longrightarrow>
            get_detailed_article w n st =
              Inr (''Here's more detail about article '' @ show_int n @ '': ''
                   @ py_str w (dict_get d ''title'' (PStr ''No title'')) @ ''. ''
                   @ py_str w (dict_get d ''description'' (PStr ''No description available''))
                   @ '' This story is from ''
                   @ py_str w (dict_get d ''source'' (PStr ''Unknown source'')) @ ''.''))"
  using assms
  by (auto simp: get_detailed_article_def Let_def bind_exn_def py_len_def py_index_def py_get_def)

lemma briefing_turn:
  "snd (handle_text_input briefing_world ''what is new'' ''female'' initial_state) =
     \<lparr>conversation_history =
         [\<lparr>role = ''user'', content = ''what is new''\<rparr>, \<lparr>role = ''assistant'', content = ''reply''\<rparr>],
       current_session = [(''voice_preference'', PStr ''female''),
          (''last_category'', PStr ''general''),
          (''last_news_data'', PDict
             [(''technology'', PList []), (''politics'', PList []), (''sports'', PList []),
              (''entertainment'', PList []), (''business'', PList []), (''health'', PList []),
              (''science'', PList [])]),
          (''last_action'', PStr ''news_fetch'')],
       upstream_log = [request_messages [\<lparr>role = ''user'', content = ''what is new''\<rparr>]]\<rparr>"
proof -
  have p: "process_user_input briefing_world ''what is new'' initial_state =
     (Inr (PDict [(''intent'', PStr ''news_category''), (''category'', PStr ''general''),
             (''response'', PStr ''Here is the news.''), (''action'', PStr ''fetch_news'')]),
      \<lparr>conversation_history =
         [\<lparr>role = ''user'', content = ''what is new''\<rparr>, \<lparr>role = ''assistant'', content = ''reply''\<rparr>],
       current_session = [(''voice_preference'', PStr ''female'')],
       upstream_log = [request_messages [\<lparr>role = ''user'', content = ''what is new''\<rparr>]]\<rparr>)"
    by (simp add: process_user_input_def process_user_input_body_def briefing_world_def
      json_world_def offline_world_def py_strip_def is_space_def Let_def initial_state_def)
  have n: "get_all_categories_news briefing_world 3 =
     Inr [(''technology'', PList []), (''politics'', PList []), (''sports'', PList []),
          (''entertainment'', PList []), (''business'', PList []), (''health'', PList []),
          (''science'', PList [])]"
    by (simp add: get_all_categories_news_def NEWS_CATEGORIES_def get_top_headlines_def
      get_top_headlines_body_def bind_exn_def briefing_world_def json_world_def offline_world_def)
  have s: "synthesize_speech briefing_world t ''female'' = Inr None" for t
    by (simp add: synthesize_speech_def synthesize_speech_body_def briefing_world_def
        json_world_def offline_world_def)
  show ?thesis
    by (simp add: handle_text_input_def handle_text_input_body_def p handle_intent_def
        handle_intent_body_def handle_news_request_def py_get_def dict_get_def n s
        format_general_news_update_def dict_update_def)
qed

text \<open>
  C10. The claim fails on the code after a general briefing: \<open>_handle_news_request\<close> then
  stores the dictionary of all categories under \<open>last_news_data\<close>, and for every number
  from 1 to the number of its keys \<open>get_detailed_article\<close> indexes that dictionary with an
  integer and raises \<open>KeyError\<close>. (On a stored list of articles the function behaves as
  claimed, see \<open>detailed_article_on_list\<close>.)
\<close>

theorem detailed_article_on_briefing:
  assumes "dict_get (current_session st) ''last_news_data'' (PList []) = PDict all_news"
    and "1 \<le> n" and "n \<le> int (length all_news)"
  shows "get_detailed_article w n st = Inl KeyError"
  using assms
  by (auto simp: get_detailed_article_def Let_def bind_exn_def py_len_def py_index_def)

theorem detailed_article_on_briefing_witness:
  "get_detailed_article briefing_world 1
     (snd (handle_text_input briefing_world ''what is new'' ''female'' initial_state))
   = Inl KeyError"
proof -
  let ?st = "snd (handle_text_input briefing_world ''what is new'' ''female'' initial_state)"
  have "dict_get (current_session ?st) ''last_news_data'' (PList []) = PDict
             [(''technology'', PList []), (''politics'', PList []), (''sports'', PList []),
              (''entertainment'', PList []), (''business'', PList []), (''health'', PList []),
              (''science'', PList [])]"
    unfolding briefing_turn by (simp add: dict_get_def)
  from detailed_article_on_briefing[OF this, of 1 briefing_world] show ?thesis by simp
qed


section \<open>The registry of audio responses\<close>

lemma serve_audio_present:
  "audio_storage audio_id = Some audio_data \<Longrightarrow>
     serve_audio audio_id audio_storage =
       (Inr \<lparr>resp_content = audio_data, media_type = ''audio/wav'',
             headers = [(''Content-Disposition'', ''inline; filename=response.wav''),
                        (''Cache-Control'', ''no-cache'')]\<rparr>,
        audio_storage(audio_id := None))"
  by (simp add: serve_audio_def serve_audio_body_def)

lemma serve_audio_absent:
  "audio_storage audio_id = None \<Longrightarrow>
     serve_audio audio_id audio_storage =
       (Inl (HTTPException 500 ''Error serving audio''), audio_storage)"
  by (simp add: serve_audio_def serve_audio_body_def)

text \<open>
  C9. The first retrieval of a registered blob returns its bytes and deletes the entry. The
  second retrieval returns no bytes, but it does not answer "not found": the
  \<open>HTTPException\<close> with status 404 raised in the body is caught by the endpoint's own
  handler, and the caller gets status 500, "Error serving audio".
\<close>

theorem audio_second_retrieval:
  assumes "audio \<noteq> []"
  shows "fst (serve_audio audio_id (store_audio audio_id (Some audio) audio_storage)) =
       Inr \<lparr>resp_content = audio, media_type = ''audio/wav'',
             headers = [(''Content-Disposition'', ''inline; filename=response.wav''),
                        (''Cache-Control'', ''no-cache'')]\<rparr>
   \<and> snd (serve_audio audio_id (store_audio audio_id (Some audio) audio_storage)) audio_id = None
   \<and> serve_audio audio_id
        (snd (serve_audio audio_id (store_audio audio_id (Some audio) audio_storage))) =
       (Inl (HTTPException 500 ''Error serving audio''),
        snd (serve_audio audio_id (store_audio audio_id (Some audio) audio_storage)))
   \<and> fst (serve_audio_body audio_id
        (snd (serve_audio audio_id (store_audio audio_id (Some audio) audio_storage)))) =
       Inl (HTTPException 404 ''Audio not found'')"
proof -
  have stored: "store_audio audio_id (Some audio) audio_storage audio_id = Some audio"
    using assms by (simp add: store_audio_def)
  note first = serve_audio_present[of "store_audio audio_id (Some audio) audio_storage" audio_id audio, OF stored]
  have gone: "snd (serve_audio audio_id (store_audio audio_id (Some audio) audio_storage)) audio_id = None"
    by (simp add: first)
  show ?thesis
    using serve_audio_absent[of "snd (serve_audio audio_id (store_audio audio_id (Some audio) audio_storage))" audio_id, OF gone] gone
    by (simp add: first serve_audio_body_def)
qed

theorem audio_second_retrieval_witness:
  "serve_audio ''3f2a'' (store_audio ''3f2a'' (Some [82, 73, 70, 70]) Map.empty) =
     (Inr \<lparr>resp_content = [82, 73, 70, 70], media_type = ''audio/wav'',
           headers = [(''Content-Disposition'', ''inline; filename=response.wav''),
                      (''Cache-Control'', ''no-cache'')]\<rparr>, Map.empty)
   \<and> serve_audio ''3f2a''
        (snd (serve_audio ''3f2a'' (store_audio ''3f2a'' (Some [82, 73, 70, 70]) Map.empty))) =
     (Inl (HTTPException 500 ''Error serving audio''), Map.empty)"
proof -
  have ne: "[82, 73, 70, 70] \<noteq> ([] :: bytes)" by simp
  have e: "snd (serve_audio ''3f2a'' (store_audio ''3f2a'' (Some [82, 73, 70, 70]) Map.empty))
      = Map.empty"
    by (simp add: serve_audio_def serve_audio_body_def store_audio_def)
  from audio_second_retrieval[OF ne, of "''3f2a''" Map.empty] show ?thesis
    unfolding e by (simp add: serve_audio_def serve_audio_body_def store_audio_def)
qed


end
